theory Spec2Isabelle
  imports Main "HOL-Library.AList"
begin

section \<open>Python values and exceptions\<close>

text \<open>
  The values that flow through \<^verbatim>\<open>openhands/core/message.py\<close> are JSON-like Python
  values: raw messages and tool schemas are dicts, \<^verbatim>\<open>json.loads\<close> returns such a
  value, and every serializer returns a dict or a list of dicts.
  \<^item> A Python \<^verbatim>\<open>str\<close> is a \<open>string\<close>; each \<open>char\<close> is read as one code point below 256.
  \<^item> A Python \<^verbatim>\<open>float\<close> is carried by its \<^verbatim>\<open>repr\<close> text (floating point itself is
    not modelled).
  \<^item> A Python \<^verbatim>\<open>dict\<close> is an association list in insertion order.
\<close>

datatype json =
    JNull
  | JBool bool
  | JInt int
  | JFloat string
  | JString string
  | JArray "json list"
  | JObject "(string \<times> json) list"

type_synonym dict = "(string \<times> json) list"

text \<open>
  Every exception the module can raise is a value. \<open>ValueError\<close>, \<open>NameError\<close> and
  \<open>FunctionCallConversionError\<close> carry the message (or the unbound name), \<open>KeyError\<close>
  the missing key, \<open>AttributeError\<close> the missing attribute. \<open>ValidationError\<close> is
  pydantic's rejection of a field value of the wrong type, and
  \<open>PydanticSerializationError\<close> is what \<^verbatim>\<open>model_dump\<close> raises when the serializer function of
  the model raised; it carries that exception.
\<close>

datatype error =
    ValueError string
  | FunctionCallConversionError string
  | NameError string
  | KeyError string
  | AttributeError string
  | TypeError
  | IndexError
  | AssertionError
  | ValidationError
  | PydanticSerializationError error

definition then_do :: "error + 'a \<Rightarrow> ('a \<Rightarrow> error + 'b) \<Rightarrow> error + 'b" where
  "then_do r f = (case r of Inl e \<Rightarrow> Inl e | Inr x \<Rightarrow> f x)"

subsection \<open>Strings\<close>

text \<open>\<^verbatim>\<open>sep.join(parts)\<close>.\<close>

fun join :: "string \<Rightarrow> string list \<Rightarrow> string" where
  "join sep [] = []"
| "join sep [x] = x"
| "join sep (x # y # ys) = x @ sep @ join sep (y # ys)"

text \<open>\<^verbatim>\<open>str(n)\<close> of a natural number and of an integer: decimal digits.\<close>

fun str_nat :: "nat \<Rightarrow> string" where
  "str_nat n =
     (if n < 10 then [''0123456789'' ! n]
      else str_nat (n div 10) @ [''0123456789'' ! (n mod 10)])"

declare str_nat.simps [simp del]

definition str_int :: "int \<Rightarrow> string" where
  "str_int i = (if i < 0 then ''-'' @ str_nat (nat (- i)) else str_nat (nat i))"

text \<open>
  \<^verbatim>\<open>repr(s)\<close> of a string: single quotes unless the string holds a single quote and no
  double quote; the quote and the backslash are escaped, tab, newline and carriage return
  get their short escapes, and every other non-printable code point below 256 is
  written \<^verbatim>\<open>\xhh\<close>.
\<close>

definition hex2 :: "nat \<Rightarrow> string" where
  "hex2 n = [''0123456789abcdef'' ! (n div 16 mod 16), ''0123456789abcdef'' ! (n mod 16)]"

definition repr_quote :: "string \<Rightarrow> char" where
  "repr_quote s = (if CHR 0x27 \<in> set s \<and> CHR 0x22 \<notin> set s then CHR 0x22 else CHR 0x27)"

definition repr_char :: "char \<Rightarrow> char \<Rightarrow> string" where
  "repr_char q c =
     (let n = (of_char c :: nat) in
      if c = q \<or> c = CHR 0x5C then [CHR 0x5C, c]
      else if c = CHR 0x09 then [CHR 0x5C, CHR ''t'']
      else if c = CHR 0x0A then [CHR 0x5C, CHR ''n'']
      else if c = CHR 0x0D then [CHR 0x5C, CHR ''r'']
      else if n < 32 \<or> n = 127 \<or> (128 \<le> n \<and> n \<le> 160) \<or> n = 173
        then [CHR 0x5C, CHR ''x''] @ hex2 n
      else [c])"

definition repr_str :: "string \<Rightarrow> string" where
  "repr_str s = (let q = repr_quote s in [q] @ concat (map (repr_char q) s) @ [q])"

text \<open>\<^verbatim>\<open>repr(v)\<close> and \<^verbatim>\<open>str(v)\<close>; an f-string field \<^verbatim>\<open>{v}\<close> is \<^verbatim>\<open>str(v)\<close>.\<close>

fun py_repr :: "json \<Rightarrow> string" where
  "py_repr JNull = ''None''"
| "py_repr (JBool b) = (if b then ''True'' else ''False'')"
| "py_repr (JInt i) = str_int i"
| "py_repr (JFloat r) = r"
| "py_repr (JString s) = repr_str s"
| "py_repr (JArray xs) = ''['' @ join '', '' (map py_repr xs) @ '']''"
| "py_repr (JObject kvs) =
     ''{'' @ join '', '' (map (\<lambda>kv. repr_str (fst kv) @ '': '' @ py_repr (snd kv)) kvs) @ ''}''"

definition py_str :: "json \<Rightarrow> string" where
  "py_str v = (case v of JString s \<Rightarrow> s | _ \<Rightarrow> py_repr v)"

subsection \<open>Dicts\<close>

text \<open>\<^verbatim>\<open>d[k]\<close>, \<^verbatim>\<open>d.get(k, default)\<close>, \<^verbatim>\<open>k in d\<close> and \<^verbatim>\<open>d[k] = v\<close> on a dict.\<close>

definition dict_item :: "dict \<Rightarrow> string \<Rightarrow> error + json" where
  "dict_item d k = (case map_of d k of None \<Rightarrow> Inl (KeyError k) | Some v \<Rightarrow> Inr v)"

definition dict_get :: "dict \<Rightarrow> string \<Rightarrow> json \<Rightarrow> json" where
  "dict_get d k dflt = (case map_of d k of None \<Rightarrow> dflt | Some v \<Rightarrow> v)"

definition dict_has :: "dict \<Rightarrow> string \<Rightarrow> bool" where
  "dict_has d k = (map_of d k \<noteq> None)"

definition dict_set :: "dict \<Rightarrow> string \<Rightarrow> json \<Rightarrow> dict" where
  "dict_set d k v = (if dict_has d k then AList.update k v d else d @ [(k, v)])"

text \<open>\<^verbatim>\<open>v[k]\<close> with a string key on any value: only a dict can be indexed by a string.\<close>

definition subscript :: "json \<Rightarrow> string \<Rightarrow> error + json" where
  "subscript v k = (case v of JObject d \<Rightarrow> dict_item d k | _ \<Rightarrow> Inl TypeError)"

subsection \<open>Dynamic typing\<close>

text \<open>
  The operations the module applies to values whose type it does not check: truth value,
  \<^verbatim>\<open>len\<close>, iteration, \<^verbatim>\<open>v[0]\<close>, the method \<^verbatim>\<open>get\<close>, \<^verbatim>\<open>set(v)\<close> and \<^verbatim>\<open>v += s\<close> with a
  string \<open>s\<close>. Each raises as Python does on a value of the wrong type.
\<close>

definition truthy :: "json \<Rightarrow> bool" where
  "truthy v =
     (case v of
        JNull \<Rightarrow> False
      | JBool b \<Rightarrow> b
      | JInt i \<Rightarrow> i \<noteq> 0
      | JFloat r \<Rightarrow> r \<noteq> ''0.0'' \<and> r \<noteq> ''-0.0''
      | JString s \<Rightarrow> s \<noteq> []
      | JArray xs \<Rightarrow> xs \<noteq> []
      | JObject d \<Rightarrow> d \<noteq> [])"

definition py_len :: "json \<Rightarrow> error + nat" where
  "py_len v =
     (case v of
        JArray xs \<Rightarrow> Inr (length xs)
      | JString s \<Rightarrow> Inr (length s)
      | JObject d \<Rightarrow> Inr (length d)
      | _ \<Rightarrow> Inl TypeError)"

definition py_iter :: "json \<Rightarrow> error + json list" where
  "py_iter v =
     (case v of
        JArray xs \<Rightarrow> Inr xs
      | JString s \<Rightarrow> Inr (map (\<lambda>c. JString [c]) s)
      | JObject d \<Rightarrow> Inr (map (\<lambda>kv. JString (fst kv)) d)
      | _ \<Rightarrow> Inl TypeError)"

definition index0 :: "json \<Rightarrow> error + json" where
  "index0 v =
     (case v of
        JArray xs \<Rightarrow> (case xs of [] \<Rightarrow> Inl IndexError | x # _ \<Rightarrow> Inr x)
      | JString s \<Rightarrow> (case s of [] \<Rightarrow> Inl IndexError | c # _ \<Rightarrow> Inr (JString [c]))
      | JObject d \<Rightarrow> Inl (KeyError ''0'')
      | _ \<Rightarrow> Inl TypeError)"

definition method_get :: "json \<Rightarrow> string \<Rightarrow> json \<Rightarrow> error + json" where
  "method_get v k dflt =
     (case v of JObject d \<Rightarrow> Inr (dict_get d k dflt) | _ \<Rightarrow> Inl (AttributeError ''get''))"

definition contains_key :: "json \<Rightarrow> string \<Rightarrow> bool" where
  "contains_key v k = (case v of JObject d \<Rightarrow> dict_has d k | _ \<Rightarrow> False)"

definition hashable :: "json \<Rightarrow> bool" where
  "hashable v = (case v of JArray _ \<Rightarrow> False | JObject _ \<Rightarrow> False | _ \<Rightarrow> True)"

definition py_set :: "json \<Rightarrow> error + json list" where
  "py_set v =
     then_do (py_iter v) (\<lambda>xs. if list_all hashable xs then Inr xs else Inl TypeError)"

definition iadd_str :: "json \<Rightarrow> string \<Rightarrow> error + json" where
  "iadd_str v s =
     (case v of
        JString d \<Rightarrow> Inr (JString (d @ s))
      | JArray xs \<Rightarrow> Inr (JArray (xs @ map (\<lambda>c. JString [c]) s))
      | _ \<Rightarrow> Inl TypeError)"

text \<open>A pydantic field of type \<^verbatim>\<open>str\<close> accepts a string and rejects every other value.\<close>

definition validate_str :: "json \<Rightarrow> error + string" where
  "validate_str v = (case v of JString s \<Rightarrow> Inr s | _ \<Rightarrow> Inl ValidationError)"

section \<open>Content blocks\<close>

text \<open>
  The classes \<^verbatim>\<open>Content\<close>, \<^verbatim>\<open>TextContent\<close>, \<^verbatim>\<open>ImageContent\<close>, \<^verbatim>\<open>ToolCallContent\<close> and
  \<^verbatim>\<open>ToolResponseContent\<close>. The field \<open>type\<close> is an ordinary field with a class default;
  the constructors below fill it with that default, as every construction in the module
  does.
\<close>

record Content =
  type :: string
  cache_prompt :: bool

record TextContent = Content +
  "text" :: string

record ImageContent = Content +
  image_urls :: "string list"

record ToolCallContent = Content +
  function_name :: string
  function_arguments :: string
  tool_call_id :: string

record ToolResponseContent = Content +
  tool_call_id :: string
  name :: string
  content :: string

datatype content_block =
    Text TextContent
  | Image ImageContent
  | ToolCall ToolCallContent
  | ToolResponse ToolResponseContent

definition new_TextContent :: "string \<Rightarrow> bool \<Rightarrow> TextContent" where
  "new_TextContent t cp = \<lparr>type = ''text'', cache_prompt = cp, text = t\<rparr>"

definition new_ImageContent :: "string list \<Rightarrow> bool \<Rightarrow> ImageContent" where
  "new_ImageContent urls cp = \<lparr>type = ''image_url'', cache_prompt = cp, image_urls = urls\<rparr>"

definition new_ToolCallContent :: "string \<Rightarrow> string \<Rightarrow> string \<Rightarrow> ToolCallContent" where
  "new_ToolCallContent fname fargs tcid =
     \<lparr>type = ''tool_call'', cache_prompt = False, function_name = fname,
      function_arguments = fargs, tool_call_id = tcid\<rparr>"

definition new_ToolResponseContent :: "string \<Rightarrow> string \<Rightarrow> string \<Rightarrow> ToolResponseContent" where
  "new_ToolResponseContent tcid n c =
     \<lparr>type = ''tool_response'', cache_prompt = False, tool_call_id = tcid, name = n,
      content = c\<rparr>"

subsection \<open>Serialization of one block\<close>

definition ephemeral :: json where
  "ephemeral = JObject [(''type'', JString ''ephemeral'')]"

definition TextContent_serialize_model :: "TextContent \<Rightarrow> dict" where
  "TextContent_serialize_model c =
     (let data = [(''type'', JString (type c)), (''text'', JString (text c))] in
      if cache_prompt c then dict_set data ''cache_control'' ephemeral else data)"

text \<open>The \<^verbatim>\<open>for url in self.image_urls\<close> loop, with the list \<^verbatim>\<open>images\<close> threaded through.\<close>

fun images_loop :: "string \<Rightarrow> string list \<Rightarrow> dict list \<Rightarrow> dict list" where
  "images_loop ty [] images = images"
| "images_loop ty (url # urls) images =
     images_loop ty urls
       (images @ [[(''type'', JString ty), (''image_url'', JObject [(''url'', JString url)])]])"

definition ImageContent_serialize_model :: "ImageContent \<Rightarrow> dict list" where
  "ImageContent_serialize_model c =
     (let images = images_loop (type c) (image_urls c) [] in
      if cache_prompt c \<and> images \<noteq> []
      then images[length images - 1 := dict_set (last images) ''cache_control'' ephemeral]
      else images)"

definition ToolCallContent_serialize_model :: "ToolCallContent \<Rightarrow> dict" where
  "ToolCallContent_serialize_model c =
     [(''type'', JString (type c)),
      (''tool_calls'', JArray [JObject
         [(''id'', JString (ToolCallContent.tool_call_id c)),
          (''type'', JString ''function''),
          (''function'', JObject
             [(''name'', JString (function_name c)),
              (''arguments'', JString (function_arguments c))])]])]"

definition ToolResponseContent_serialize_model :: "ToolResponseContent \<Rightarrow> dict" where
  "ToolResponseContent_serialize_model c =
     [(''type'', JString (type c)), (''content'', JString (content c))]"

section \<open>Function-call text codec\<close>

text \<open>
  \<^verbatim>\<open>json.loads\<close> belongs to the Python library, so it is a parameter: it returns the decoded
  value, or \<open>None\<close> where the library raises \<^verbatim>\<open>json.JSONDecodeError\<close>.
\<close>

type_synonym json_loads = "string \<Rightarrow> json option"

text \<open>
  The names bound at module level in \<^verbatim>\<open>message.py\<close>: its imports (lines 1 to 13) and its
  classes. Evaluating a name that is neither here nor a builtin raises \<^verbatim>\<open>NameError\<close>.
  \<^verbatim>\<open>ToolCallContent.to_string_format\<close> evaluates \<^verbatim>\<open>FunctionCallConversionError(...)\<close>
  in its \<^verbatim>\<open>except\<close> clause.
\<close>

definition module_globals :: "string list" where
  "module_globals =
     [''json'', ''uuid'', ''Enum'', ''Literal'', ''ChatCompletionMessageToolCall'',
      ''BaseModel'', ''Field'', ''model_serializer'', ''SYSTEM_PROMPT_SUFFIX_TEMPLATE'',
      ''IN_CONTEXT_LEARNING_EXAMPLE_PREFIX'', ''IN_CONTEXT_LEARNING_EXAMPLE_SUFFIX'',
      ''ContentType'', ''Content'', ''TextContent'', ''ImageContent'', ''ToolCallContent'',
      ''ToolResponseContent'', ''Message'']"

definition raise_FunctionCallConversionError :: "string \<Rightarrow> error" where
  "raise_FunctionCallConversionError msg =
     (if ''FunctionCallConversionError'' \<in> set module_globals
      then FunctionCallConversionError msg
      else NameError ''FunctionCallConversionError'')"

definition is_multiline :: "json \<Rightarrow> bool" where
  "is_multiline param_value =
     (case param_value of JString s \<Rightarrow> CHR 0x0A \<in> set s | _ \<Rightarrow> False)"

text \<open>\<^verbatim>\<open>args.items()\<close>: only a dict has the method.\<close>

definition items :: "json \<Rightarrow> error + (string \<times> json) list" where
  "items args = (case args of JObject d \<Rightarrow> Inr d | _ \<Rightarrow> Inl (AttributeError ''items''))"

text \<open>The \<^verbatim>\<open>for param_name, param_value in args.items()\<close> loop, threading \<^verbatim>\<open>ret\<close>.\<close>

fun params_loop :: "(string \<times> json) list \<Rightarrow> string \<Rightarrow> string" where
  "params_loop [] ret = ret"
| "params_loop ((param_name, param_value) # rest) ret =
     (let ret = ret @ ''<parameter='' @ param_name @ ''>'';
          ret = (if is_multiline param_value then ret @ ''\<newline>'' else ret);
          ret = ret @ py_str param_value;
          ret = (if is_multiline param_value then ret @ ''\<newline>'' else ret);
          ret = ret @ ''</parameter>\<newline>''
      in params_loop rest ret)"

definition ToolCallContent_to_string_format :: "json_loads \<Rightarrow> ToolCallContent \<Rightarrow> error + string" where
  "ToolCallContent_to_string_format loads c =
     (let ret = ''<function='' @ function_name c @ ''>\<newline>'' in
      case loads (function_arguments c) of
        None \<Rightarrow>
          Inl (raise_FunctionCallConversionError
                 (''Failed to parse arguments as JSON. Arguments: '' @ function_arguments c))
      | Some args \<Rightarrow>
          then_do (items args) (\<lambda>kvs. Inr (params_loop kvs ret @ ''</function>'')))"

definition ToolResponseContent_to_string_format :: "ToolResponseContent \<Rightarrow> string" where
  "ToolResponseContent_to_string_format c =
     ''EXECUTION RESULT of ['' @ name c @ '']:\<newline>'' @ content c"

text \<open>
  \<^verbatim>\<open>Message._tool_call_to_string\<close> on a raw tool-call dict. \<^verbatim>\<open>json.loads\<close> of a value that
  is not a string raises \<^verbatim>\<open>TypeError\<close>.
\<close>

definition tool_call_to_string :: "json_loads \<Rightarrow> dict \<Rightarrow> error + string" where
  "tool_call_to_string loads tool_call =
     (if \<not> dict_has tool_call ''function''
        then Inl (ValueError ''Tool call must contain 'function' key.'')
      else if \<not> dict_has tool_call ''id''
        then Inl (ValueError ''Tool call must contain 'id' key.'')
      else if \<not> dict_has tool_call ''type''
        then Inl (ValueError ''Tool call must contain 'type' key.'')
      else if dict_item tool_call ''type'' \<noteq> Inr (JString ''function'')
        then Inl (ValueError ''Tool call type must be 'function'.'')
      else
        then_do (dict_item tool_call ''function'') (\<lambda>fn.
        then_do (subscript fn ''name'') (\<lambda>fname.
          let ret = ''<function='' @ py_str fname @ ''>\<newline>'' in
          then_do (subscript fn ''arguments'') (\<lambda>arguments.
            case arguments of
              JString a \<Rightarrow>
                (case loads a of
                   None \<Rightarrow>
                     Inl (ValueError (''Failed to parse arguments as JSON. Arguments: '' @ a))
                 | Some args \<Rightarrow>
                     then_do (items args) (\<lambda>kvs. Inr (params_loop kvs ret @ ''</function>'')))
            | _ \<Rightarrow> Inl TypeError))))"

section \<open>Messages\<close>

text \<open>The \<^verbatim>\<open>Literal['user', 'system', 'assistant', 'tool']\<close> of the field \<^verbatim>\<open>role\<close>.\<close>

datatype role = User | System | Assistant | Tool

definition role_str :: "role \<Rightarrow> string" where
  "role_str r =
     (case r of User \<Rightarrow> ''user'' | System \<Rightarrow> ''system'' | Assistant \<Rightarrow> ''assistant''
      | Tool \<Rightarrow> ''tool'')"

record Message =
  role :: role
  content :: "content_block list"
  cache_enabled :: bool
  vision_enabled :: bool
  function_calling_enabled :: bool
  tool_calls :: "json list option"
  tool_call_id :: "string option"
  name :: "string option"

text \<open>\<^verbatim>\<open>Message(role=..., content=..., function_calling_enabled=False)\<close>, the other fields at
  their defaults: the only way the rewriter builds a message.\<close>

definition new_Message :: "role \<Rightarrow> content_block list \<Rightarrow> Message" where
  "new_Message r cs =
     \<lparr>role = r, content = cs, cache_enabled = False, vision_enabled = False,
      function_calling_enabled = False, tool_calls = None, tool_call_id = None, name = None\<rparr>"

text \<open>The list-format loop: an image block is spliced in, any other block is appended.\<close>

fun list_content_loop :: "content_block list \<Rightarrow> json list \<Rightarrow> json list" where
  "list_content_loop [] content_acc = content_acc"
| "list_content_loop (item # rest) content_acc =
     (case item of
        Image c \<Rightarrow>
          list_content_loop rest (content_acc @ map JObject (ImageContent_serialize_model c))
      | Text c \<Rightarrow>
          list_content_loop rest (content_acc @ [JObject (TextContent_serialize_model c)])
      | ToolCall c \<Rightarrow>
          list_content_loop rest (content_acc @ [JObject (ToolCallContent_serialize_model c)])
      | ToolResponse c \<Rightarrow>
          list_content_loop rest
            (content_acc @ [JObject (ToolResponseContent_serialize_model c)]))"

text \<open>The string-format loop of the non-native serializer: images are skipped, and a tool
  call that cannot be encoded aborts the serialization.\<close>

fun content_parts_loop ::
  "json_loads \<Rightarrow> content_block list \<Rightarrow> string list \<Rightarrow> error + string list" where
  "content_parts_loop loads [] content_parts = Inr content_parts"
| "content_parts_loop loads (item # rest) content_parts =
     (case item of
        Text c \<Rightarrow> content_parts_loop loads rest (content_parts @ [text c])
      | ToolCall c \<Rightarrow>
          (case ToolCallContent_to_string_format loads c of
             Inl e \<Rightarrow> Inl e
           | Inr s \<Rightarrow> content_parts_loop loads rest (content_parts @ [s]))
      | ToolResponse c \<Rightarrow>
          content_parts_loop loads rest (content_parts @ [ToolResponseContent_to_string_format c])
      | Image c \<Rightarrow> content_parts_loop loads rest content_parts)"

definition string_function_serializer :: "json_loads \<Rightarrow> Message \<Rightarrow> bool \<Rightarrow> error + dict" where
  "string_function_serializer loads m use_list_format =
     (let message_dict = [(''role'', JString (role_str (role m)))] in
      if use_list_format
      then Inr (dict_set message_dict ''content''
                  (JArray (list_content_loop (Message.content m) [])))
      else then_do (content_parts_loop loads (Message.content m) []) (\<lambda>content_parts.
             Inr (dict_set message_dict ''content'' (JString (join ''\<newline>'' content_parts)))))"

text \<open>
  \<^verbatim>\<open>next((c for c in self.content if isinstance(c, ...)), None)\<close>. The test
  \<^verbatim>\<open>if tool_call_content:\<close> that follows is the test for \<open>Some\<close>: a model instance is always
  true.
\<close>

fun first_tool_call :: "content_block list \<Rightarrow> ToolCallContent option" where
  "first_tool_call [] = None"
| "first_tool_call (ToolCall c # rest) = Some c"
| "first_tool_call (_ # rest) = first_tool_call rest"

fun first_tool_response :: "content_block list \<Rightarrow> ToolResponseContent option" where
  "first_tool_response [] = None"
| "first_tool_response (ToolResponse c # rest) = Some c"
| "first_tool_response (_ # rest) = first_tool_response rest"

definition native_function_serializer :: "Message \<Rightarrow> bool \<Rightarrow> dict" where
  "native_function_serializer m use_list_format =
     (let message_dict = [(''role'', JString (role_str (role m)))] in
      case first_tool_call (Message.content m) of
        Some tool_call_content \<Rightarrow>
          (let message_dict = dict_set message_dict ''content'' JNull;
               message_dict = dict_set message_dict ''tool_calls''
                 (JArray [JObject
                    [(''id'', JString (ToolCallContent.tool_call_id tool_call_content)),
                     (''type'', JString ''function''),
                     (''function'', JObject
                        [(''name'', JString (function_name tool_call_content)),
                         (''arguments'', JString (function_arguments tool_call_content))])]])
           in message_dict)
      | None \<Rightarrow>
          (case first_tool_response (Message.content m) of
             Some tool_response_content \<Rightarrow>
               (let message_dict = dict_set message_dict ''content''
                      (JString (ToolResponseContent.content tool_response_content));
                    message_dict = dict_set message_dict ''tool_call_id''
                      (JString (ToolResponseContent.tool_call_id tool_response_content));
                    message_dict = dict_set message_dict ''name''
                      (JString (ToolResponseContent.name tool_response_content))
                in message_dict)
           | None \<Rightarrow>
               (if use_list_format
                then dict_set message_dict ''content''
                       (JArray (list_content_loop (Message.content m) []))
                else dict_set message_dict ''content''
                       (JString (join ''\<newline>''
                          (concat (map (\<lambda>item. case item of Text c \<Rightarrow> [text c] | _ \<Rightarrow> [])
                             (Message.content m))))))))"

definition Message_serialize_model :: "json_loads \<Rightarrow> Message \<Rightarrow> error + dict" where
  "Message_serialize_model loads m =
     (let needs_list_format = cache_enabled m \<or> vision_enabled m in
      if function_calling_enabled m
      then Inr (native_function_serializer m needs_list_format)
      else string_function_serializer loads m needs_list_format)"

section \<open>Tool-description renderer\<close>

text \<open>
  \<^verbatim>\<open>Message._tools_to_description\<close>. The inner loop runs over
  \<^verbatim>\<open>enumerate(properties.items())\<close> with the index \<open>j\<close>, the outer loop over
  \<^verbatim>\<open>enumerate(tools)\<close> with the index \<open>i\<close>; both thread \<^verbatim>\<open>ret\<close>.
\<close>

fun params_description_loop ::
  "json list \<Rightarrow> nat \<Rightarrow> (string \<times> json) list \<Rightarrow> string \<Rightarrow> error + string" where
  "params_description_loop required_params j [] ret = Inr ret"
| "params_description_loop required_params j ((param_name, param_info) # rest) ret =
     (let is_required = (JString param_name \<in> set required_params);
          param_status = (if is_required then ''required'' else ''optional'') in
      then_do (method_get param_info ''type'' (JString ''string'')) (\<lambda>param_type.
      then_do (method_get param_info ''description'' (JString ''No description provided''))
        (\<lambda>desc.
      then_do
        (if contains_key param_info ''enum''
         then then_do (subscript param_info ''enum'') (\<lambda>enum.
              then_do (py_iter enum) (\<lambda>vs.
                let enum_values = join '', '' (map (\<lambda>v. ''`'' @ py_str v @ ''`'') vs) in
                iadd_str desc (''\<newline>Allowed values: ['' @ enum_values @ '']'')))
         else Inr desc)
        (\<lambda>desc.
          params_description_loop required_params (j + 1) rest
            (ret @ ''  ('' @ str_nat (j + 1) @ '') '' @ param_name @ '' ('' @ py_str param_type
                 @ '', '' @ param_status @ ''): '' @ py_str desc @ ''\<newline>'')))))"

text \<open>The branch on \<^verbatim>\<open>'parameters' in fn\<close> inside the outer loop.\<close>

definition parameters_lines :: "json \<Rightarrow> string \<Rightarrow> error + string" where
  "parameters_lines fn ret =
     (if contains_key fn ''parameters''
      then
        (let ret = ret @ ''Parameters:\<newline>'' in
         then_do (subscript fn ''parameters'') (\<lambda>parameters.
         then_do (method_get parameters ''properties'' (JObject [])) (\<lambda>properties.
         then_do (method_get parameters ''required'' (JArray [])) (\<lambda>required.
         then_do (py_set required) (\<lambda>required_params.
         then_do (items properties) (\<lambda>props.
           params_description_loop required_params 0 props ret))))))
      else Inr (ret @ ''No parameters are required for this function.\<newline>''))"

fun tools_loop :: "nat \<Rightarrow> dict list \<Rightarrow> string \<Rightarrow> error + string" where
  "tools_loop i [] ret = Inr ret"
| "tools_loop i (tool # rest) ret =
     then_do (dict_item tool ''type'') (\<lambda>ty.
       if ty \<noteq> JString ''function'' then Inl AssertionError
       else
         then_do (dict_item tool ''function'') (\<lambda>fn.
           let ret = (if i > 0 then ret @ ''\<newline>'' else ret) in
           then_do (subscript fn ''name'') (\<lambda>fname.
             let ret = ret @ ''---- BEGIN FUNCTION #'' @ str_nat (i + 1) @ '': '' @ py_str fname
                       @ '' ----\<newline>'' in
             then_do (subscript fn ''description'') (\<lambda>fdesc.
               let ret = ret @ ''Description: '' @ py_str fdesc @ ''\<newline>'' in
               then_do (parameters_lines fn ret) (\<lambda>ret.
                 tools_loop (i + 1) rest
                   (ret @ ''---- END FUNCTION #'' @ str_nat (i + 1) @ '' ----\<newline>''))))))"

definition tools_to_description :: "dict list \<Rightarrow> error + string" where
  "tools_to_description tools = tools_loop 0 tools []"

section \<open>Conversation rewriter\<close>

text \<open>
  The three values \<^verbatim>\<open>message.py\<close> imports from \<^verbatim>\<open>openhands.llm.fn_call_converter\<close>, a
  module that is not part of the sources at hand, are parameters: the template as the
  function from the tool description to the formatted suffix
  (\<^verbatim>\<open>SYSTEM_PROMPT_SUFFIX_TEMPLATE.format(description=...)\<close>), and the two example texts.
\<close>

record templates =
  SYSTEM_PROMPT_SUFFIX_TEMPLATE :: "string \<Rightarrow> string"
  IN_CONTEXT_LEARNING_EXAMPLE_PREFIX :: string
  IN_CONTEXT_LEARNING_EXAMPLE_SUFFIX :: string

text \<open>
  One element of a raw content list:
  \<^verbatim>\<open>TextContent(text=item['text']) if item['type'] == 'text' else
  ImageContent(image_urls=[item['image_url']['url']])\<close>.
\<close>

definition block_of_item :: "json \<Rightarrow> error + content_block" where
  "block_of_item item =
     then_do (subscript item ''type'') (\<lambda>ty.
       if ty = JString ''text''
       then then_do (subscript item ''text'') (\<lambda>t.
            then_do (validate_str t) (\<lambda>s. Inr (Text (new_TextContent s False))))
       else then_do (subscript item ''image_url'') (\<lambda>image_url.
            then_do (subscript image_url ''url'') (\<lambda>url.
            then_do (validate_str url) (\<lambda>u. Inr (Image (new_ImageContent [u] False))))))"

fun blocks_of_items :: "json list \<Rightarrow> error + content_block list" where
  "blocks_of_items [] = Inr []"
| "blocks_of_items (item # rest) =
     (case block_of_item item of
        Inl e \<Rightarrow> Inl e
      | Inr b \<Rightarrow> (case blocks_of_items rest of Inl e \<Rightarrow> Inl e | Inr bs \<Rightarrow> Inr (b # bs)))"

text \<open>
  \<^verbatim>\<open>Message(...).model_dump()\<close> runs the model serializer of the message and returns its
  dict; an exception raised inside the serializer ends the dump, reported by pydantic as a
  \<^verbatim>\<open>PydanticSerializationError\<close>.
\<close>

definition model_dump :: "json_loads \<Rightarrow> Message \<Rightarrow> error + dict" where
  "model_dump loads m =
     (case Message_serialize_model loads m of
        Inl e \<Rightarrow> Inl (PydanticSerializationError e)
      | Inr d \<Rightarrow> Inr d)"

text \<open>
  The body of the loop over the raw messages: it returns the entry appended to
  \<^verbatim>\<open>converted_messages\<close> and the new value of \<^verbatim>\<open>first_user_message_encountered\<close>.
\<close>

definition convert_message ::
  "json_loads \<Rightarrow> templates \<Rightarrow> string \<Rightarrow> dict \<Rightarrow> bool \<Rightarrow> error + dict \<times> bool" where
  "convert_message loads T system_prompt_suffix message first_user_message_encountered =
     then_do (dict_item message ''role'') (\<lambda>role_value.
       let content_value = dict_get message ''content'' (JString []) in
       if role_value = JString ''system'' then
         then_do
           (case content_value of
              JString s \<Rightarrow> Inr [Text (new_TextContent (s @ system_prompt_suffix) False)]
            | JArray its \<Rightarrow>
                then_do (blocks_of_items its) (\<lambda>bs.
                  Inr (bs @ [Text (new_TextContent system_prompt_suffix False)]))
            | _ \<Rightarrow> Inr [])
           (\<lambda>content_list.
             then_do (model_dump loads (new_Message System content_list)) (\<lambda>d.
               Inr (d, first_user_message_encountered)))
       else if role_value = JString ''user'' \<and> \<not> first_user_message_encountered then
         then_do
           (case content_value of
              JString s \<Rightarrow>
                Inr [Text (new_TextContent
                       (IN_CONTEXT_LEARNING_EXAMPLE_PREFIX T @ s
                        @ IN_CONTEXT_LEARNING_EXAMPLE_SUFFIX T) False)]
            | JArray its \<Rightarrow>
                then_do (blocks_of_items its) (\<lambda>bs.
                  Inr ([Text (new_TextContent (IN_CONTEXT_LEARNING_EXAMPLE_PREFIX T) False)]
                       @ bs
                       @ [Text (new_TextContent (IN_CONTEXT_LEARNING_EXAMPLE_SUFFIX T) False)]))
            | _ \<Rightarrow> Inr [])
           (\<lambda>content_list.
             then_do (model_dump loads (new_Message User content_list)) (\<lambda>d. Inr (d, True)))
       else if role_value = JString ''assistant'' \<and> dict_has message ''tool_calls'' then
         then_do (dict_item message ''tool_calls'') (\<lambda>tcs.
         then_do (py_len tcs) (\<lambda>n.
           if n \<noteq> 1
           then Inl (ValueError (''Expected exactly one tool call, got '' @ str_nat n))
           else
             then_do
               (if truthy (dict_get message ''content'' JNull)
                then then_do (dict_item message ''content'') (\<lambda>c.
                     then_do (validate_str c) (\<lambda>s. Inr [Text (new_TextContent s False)]))
                else Inr [])
               (\<lambda>content_list.
             then_do (index0 tcs) (\<lambda>tc0.
             then_do (subscript tc0 ''function'') (\<lambda>fn.
             then_do (subscript fn ''name'') (\<lambda>fname.
             then_do (subscript fn ''arguments'') (\<lambda>fargs.
             then_do (subscript tc0 ''id'') (\<lambda>tcid.
             then_do (validate_str fname) (\<lambda>fname_s.
             then_do (validate_str fargs) (\<lambda>fargs_s.
             then_do (validate_str tcid) (\<lambda>tcid_s.
             then_do
               (model_dump loads
                  (new_Message Assistant
                     (content_list @ [ToolCall (new_ToolCallContent fname_s fargs_s tcid_s)])))
               (\<lambda>d. Inr (d, first_user_message_encountered)))))))))))))
       else if role_value = JString ''tool'' then
         then_do (dict_item message ''tool_call_id'') (\<lambda>tcid.
           let n = dict_get message ''name'' (JString ''function'') in
           then_do (dict_item message ''content'') (\<lambda>c.
           then_do (validate_str tcid) (\<lambda>tcid_s.
           then_do (validate_str n) (\<lambda>n_s.
           then_do (validate_str c) (\<lambda>c_s.
           then_do
             (model_dump loads
                (new_Message Tool [ToolResponse (new_ToolResponseContent tcid_s n_s c_s)]))
             (\<lambda>d. Inr (d, first_user_message_encountered)))))))
       else Inr (message, first_user_message_encountered))"

fun convert_loop ::
  "json_loads \<Rightarrow> templates \<Rightarrow> string \<Rightarrow> dict list \<Rightarrow> bool \<Rightarrow> dict list \<Rightarrow> error + dict list"
  where
  "convert_loop loads T system_prompt_suffix [] first_user_message_encountered
     converted_messages = Inr converted_messages"
| "convert_loop loads T system_prompt_suffix (message # rest) first_user_message_encountered
     converted_messages =
     (case convert_message loads T system_prompt_suffix message first_user_message_encountered of
        Inl e \<Rightarrow> Inl e
      | Inr (d, first_user_message_encountered) \<Rightarrow>
          convert_loop loads T system_prompt_suffix rest first_user_message_encountered
            (converted_messages @ [d]))"

definition convert_messages_to_non_native ::
  "json_loads \<Rightarrow> templates \<Rightarrow> dict list \<Rightarrow> dict list \<Rightarrow> error + dict list" where
  "convert_messages_to_non_native loads T messages tools =
     then_do (tools_to_description tools) (\<lambda>formatted_tools.
       let system_prompt_suffix = SYSTEM_PROMPT_SUFFIX_TEMPLATE T formatted_tools in
       convert_loop loads T system_prompt_suffix messages False [])"

section \<open>The specification's renderings\<close>

text \<open>
  The definitions of this section follow the words of the specification, not the code;
  the theorems compare them with the functions above.
\<close>

text \<open>The fragment the specification gives for one image URL.\<close>

definition spec_image_object :: "string \<Rightarrow> dict" where
  "spec_image_object url =
     [(''type'', JString ''image_url''), (''image_url'', JObject [(''url'', JString url)])]"

text \<open>
  The text of one parameter value: on lines of its own when it is a string that holds a
  newline, inline otherwise; a value that is not a string through \<^verbatim>\<open>str\<close>.
\<close>

definition spec_value_text :: "json \<Rightarrow> string" where
  "spec_value_text v =
     (case v of
        JString s \<Rightarrow> (if CHR 0x0A \<in> set s then ''\<newline>'' @ s @ ''\<newline>'' else s)
      | _ \<Rightarrow> py_str v)"

definition spec_parameter_line :: "string \<times> json \<Rightarrow> string" where
  "spec_parameter_line kv =
     ''<parameter='' @ fst kv @ ''>'' @ spec_value_text (snd kv) @ ''</parameter>\<newline>''"

text \<open>
  What one block contributes to the string content of the non-native serializer, in the
  words of the specification: a text block its text, a tool call its codec encoding, a
  tool response the \<open>EXECUTION RESULT\<close> line followed by its content, an image nothing.
\<close>

definition spec_block_text :: "json_loads \<Rightarrow> content_block \<Rightarrow> string list" where
  "spec_block_text loads b =
     (case b of
        Text c \<Rightarrow> [text c]
      | ToolCall c \<Rightarrow>
          (case ToolCallContent_to_string_format loads c of Inr s \<Rightarrow> [s] | Inl _ \<Rightarrow> [])
      | ToolResponse c \<Rightarrow>
          [''EXECUTION RESULT of ['' @ ToolResponseContent.name c @ '']:\<newline>''
           @ ToolResponseContent.content c]
      | Image c \<Rightarrow> [])"

text \<open>The message-level entry \<open>{id, type: "function", function: {name, arguments}}\<close>.\<close>

definition spec_native_tool_call :: "ToolCallContent \<Rightarrow> json" where
  "spec_native_tool_call c =
     JObject
       [(''id'', JString (ToolCallContent.tool_call_id c)),
        (''type'', JString ''function''),
        (''function'', JObject
           [(''name'', JString (function_name c)),
            (''arguments'', JString (function_arguments c))])]"

subsection \<open>Tool schemas\<close>

text \<open>
  A tool schema as the specification gives it:
  \<open>{type: "function", function: {name, description, parameters?: {properties, required?}}}\<close>,
  each property with an optional type, description and enum. \<open>tool_dict\<close> is the raw dict of
  a schema, the input of the renderer.
\<close>

record param_schema =
  param_type :: "json option"
  param_description :: "string option"
  param_enum :: "json list option"

record parameters_schema =
  properties :: "(string \<times> param_schema) list option"
  required :: "string list option"

record function_schema =
  schema_name :: string
  schema_description :: string
  schema_parameters :: "parameters_schema option"

definition param_dict :: "param_schema \<Rightarrow> dict" where
  "param_dict p =
     (case param_type p of None \<Rightarrow> [] | Some t \<Rightarrow> [(''type'', t)])
     @ (case param_description p of None \<Rightarrow> [] | Some d \<Rightarrow> [(''description'', JString d)])
     @ (case param_enum p of None \<Rightarrow> [] | Some vs \<Rightarrow> [(''enum'', JArray vs)])"

definition property_entry :: "string \<times> param_schema \<Rightarrow> string \<times> json" where
  "property_entry np = (fst np, JObject (param_dict (snd np)))"

definition parameters_dict :: "parameters_schema \<Rightarrow> dict" where
  "parameters_dict ps =
     [(''type'', JString ''object'')]
     @ (case properties ps of None \<Rightarrow> []
        | Some props \<Rightarrow> [(''properties'', JObject (map property_entry props))])
     @ (case required ps of None \<Rightarrow> [] | Some r \<Rightarrow> [(''required'', JArray (map JString r))])"

definition function_dict :: "function_schema \<Rightarrow> dict" where
  "function_dict f =
     [(''name'', JString (schema_name f)), (''description'', JString (schema_description f))]
     @ (case schema_parameters f of None \<Rightarrow> []
        | Some ps \<Rightarrow> [(''parameters'', JObject (parameters_dict ps))])"

definition tool_dict :: "function_schema \<Rightarrow> dict" where
  "tool_dict f = [(''type'', JString ''function''), (''function'', JObject (function_dict f))]"

text \<open>
  The rendering the specification describes: parameters and functions numbered from 1 in
  input order, a parameter required when its name is in the schema's \<open>required\<close> list, an
  \<open>Allowed values\<close> line for an enum, a fixed line for a tool without parameters, and the
  blocks of the tools joined by a newline (each block ends with one, so a blank line
  separates two tools).
\<close>

definition spec_param_line :: "string list \<Rightarrow> nat \<times> string \<times> param_schema \<Rightarrow> string" where
  "spec_param_line req jp =
     (let j = fst jp; pname = fst (snd jp); p = snd (snd jp) in
      ''  ('' @ str_nat j @ '') '' @ pname @ '' (''
      @ (case param_type p of None \<Rightarrow> ''string'' | Some t \<Rightarrow> py_str t)
      @ '', '' @ (if pname \<in> set req then ''required'' else ''optional'') @ ''): ''
      @ (case param_description p of None \<Rightarrow> ''No description provided'' | Some d \<Rightarrow> d)
      @ (case param_enum p of None \<Rightarrow> []
         | Some vs \<Rightarrow>
             ''\<newline>Allowed values: ['' @ join '', '' (map (\<lambda>v. ''`'' @ py_str v @ ''`'') vs) @ '']'')
      @ ''\<newline>'')"

definition spec_parameters_text :: "parameters_schema option \<Rightarrow> string" where
  "spec_parameters_text pso =
     (case pso of
        None \<Rightarrow> ''No parameters are required for this function.\<newline>''
      | Some ps \<Rightarrow>
          ''Parameters:\<newline>''
          @ concat (map (spec_param_line (case required ps of None \<Rightarrow> [] | Some r \<Rightarrow> r))
                      (enumerate 1 (case properties ps of None \<Rightarrow> [] | Some props \<Rightarrow> props))))"

definition spec_tool_block :: "nat \<times> function_schema \<Rightarrow> string" where
  "spec_tool_block it =
     (let i = fst it; f = snd it in
      ''---- BEGIN FUNCTION #'' @ str_nat i @ '': '' @ schema_name f @ '' ----\<newline>''
      @ ''Description: '' @ schema_description f @ ''\<newline>''
      @ spec_parameters_text (schema_parameters f)
      @ ''---- END FUNCTION #'' @ str_nat i @ '' ----\<newline>'')"

definition spec_tools_description :: "function_schema list \<Rightarrow> string" where
  "spec_tools_description fs = join ''\<newline>'' (map spec_tool_block (enumerate 1 fs))"

subsection \<open>Raw messages\<close>

text \<open>A user turn, and whether a list of raw messages holds one.\<close>

definition is_user :: "dict \<Rightarrow> bool" where
  "is_user message = (map_of message ''role'' = Some (JString ''user''))"

definition seen_user :: "dict list \<Rightarrow> bool" where
  "seen_user messages = list_ex is_user messages"

text \<open>
  The texts of the text items of a raw content list, one per item whose type is \<open>text\<close>;
  any other item, an image, contributes nothing.
\<close>

definition item_text :: "json \<Rightarrow> string list" where
  "item_text item =
     (if subscript item ''type'' = Inr (JString ''text'')
      then (case subscript item ''text'' of Inr (JString s) \<Rightarrow> [s] | _ \<Rightarrow> [])
      else [])"

text \<open>
  A raw content item is well formed when it is a text item with a string \<open>text\<close>, or any
  other item with a string \<open>image_url.url\<close>. The content of a user turn can be wrapped when
  it is a string or a list of well-formed items.
\<close>

definition content_item_ok :: "json \<Rightarrow> bool" where
  "content_item_ok item =
     (case subscript item ''type'' of
        Inl _ \<Rightarrow> False
      | Inr ty \<Rightarrow>
          if ty = JString ''text''
          then (case subscript item ''text'' of Inr (JString s) \<Rightarrow> True | _ \<Rightarrow> False)
          else (case subscript item ''image_url'' of
                  Inl _ \<Rightarrow> False
                | Inr image_url \<Rightarrow>
                    (case subscript image_url ''url'' of Inr (JString u) \<Rightarrow> True | _ \<Rightarrow> False)))"

definition wrappable :: "json \<Rightarrow> bool" where
  "wrappable content_value =
     (case content_value of
        JString c \<Rightarrow> True
      | JArray its \<Rightarrow> list_all content_item_ok its
      | _ \<Rightarrow> False)"

text \<open>
  The entry of a user turn in the rewritten list, in the words of the specification. The
  first user turn gets the in-context example around its content: prefix, string, suffix
  for a string; a prefix block, the blocks of the list and a suffix block, rendered in
  string mode, for a list. A later user turn is passed through unchanged.
\<close>

definition spec_wrapped :: "templates \<Rightarrow> json \<Rightarrow> string" where
  "spec_wrapped T content_value =
     (case content_value of
        JString c \<Rightarrow>
          IN_CONTEXT_LEARNING_EXAMPLE_PREFIX T @ c @ IN_CONTEXT_LEARNING_EXAMPLE_SUFFIX T
      | JArray its \<Rightarrow>
          join ''\<newline>''
            ([IN_CONTEXT_LEARNING_EXAMPLE_PREFIX T] @ concat (map item_text its)
             @ [IN_CONTEXT_LEARNING_EXAMPLE_SUFFIX T])
      | _ \<Rightarrow> [])"

definition spec_user_entry :: "templates \<Rightarrow> bool \<Rightarrow> dict \<Rightarrow> dict" where
  "spec_user_entry T later message =
     (if later then message
      else [(''role'', JString ''user''),
            (''content'',
               JString (spec_wrapped T (dict_get message ''content'' (JString []))))])"

text \<open>
  The content of an assistant message that carries tool calls is plain when it is absent,
  empty or a string; the text it contributes is then the string, when it is not empty.
\<close>

definition plain_content :: "dict \<Rightarrow> bool" where
  "plain_content message =
     (case dict_get message ''content'' JNull of JString s \<Rightarrow> True | v \<Rightarrow> \<not> truthy v)"

definition assistant_text :: "dict \<Rightarrow> string list" where
  "assistant_text message =
     (case dict_get message ''content'' JNull of
        JString s \<Rightarrow> (if s = [] then [] else [s])
      | _ \<Rightarrow> [])"

section \<open>Sample inputs\<close>

text \<open>
  A finite fragment of \<^verbatim>\<open>json.loads\<close>, to run the definitions on concrete inputs: each
  listed text decodes as \<^verbatim>\<open>json.loads\<close> decodes it, and a text outside the table is
  rejected. The second text is \<^verbatim>\<open>{"cmd": "ls -la\necho hi", "n": 3}\<close>.
\<close>

definition sample_arguments :: string where
  "sample_arguments =
     ''{'' @ [CHR 0x22] @ ''cmd'' @ [CHR 0x22] @ '': '' @ [CHR 0x22] @ ''ls -la''
     @ [CHR 0x5C] @ ''necho hi'' @ [CHR 0x22] @ '', '' @ [CHR 0x22] @ ''n'' @ [CHR 0x22]
     @ '': 3}''"

definition sample_loads :: json_loads where
  "sample_loads =
     map_of
       [(''{}'', JObject []),
        (sample_arguments, JObject [(''cmd'', JString ''ls -la\<newline>echo hi''), (''n'', JInt 3)]),
        (''[]'', JArray [])]"

text \<open>A raw tool call whose arguments are the text \<^verbatim>\<open>{\<close>, which is not JSON.\<close>

definition sample_bad_tool_call :: dict where
  "sample_bad_tool_call =
     [(''id'', JString ''call_1''), (''type'', JString ''function''),
      (''function'', JObject [(''name'', JString ''run''), (''arguments'', JString ''{'')])]"

text \<open>The message of the format matrix: one text block \<open>hello\<close>, under given flags.\<close>

definition hello_message :: "bool \<Rightarrow> bool \<Rightarrow> bool \<Rightarrow> Message" where
  "hello_message ce ve fc =
     \<lparr>role = User, content = [Text (new_TextContent ''hello'' False)], cache_enabled = ce,
      vision_enabled = ve, function_calling_enabled = fc, tool_calls = None,
      tool_call_id = None, name = None\<rparr>"

definition hello_string :: dict where
  "hello_string = [(''role'', JString ''user''), (''content'', JString ''hello'')]"

definition hello_list :: dict where
  "hello_list =
     [(''role'', JString ''user''),
      (''content'', JArray [JObject [(''type'', JString ''text''), (''text'', JString ''hello'')]])]"

text \<open>Messages with several blocks of each kind.\<close>

definition sample_mixed_content :: "content_block list" where
  "sample_mixed_content =
     [Text (new_TextContent ''Listing.'' False),
      Image (new_ImageContent [''http://x/a.png''] False),
      ToolCall (new_ToolCallContent ''run'' sample_arguments ''call_1''),
      ToolResponse (new_ToolResponseContent ''call_1'' ''run'' ''a.txt''),
      ToolCall (new_ToolCallContent ''stop'' ''{}'' ''call_2'')]"

definition sample_message :: "content_block list \<Rightarrow> bool \<Rightarrow> Message" where
  "sample_message blocks fc =
     \<lparr>role = Assistant, content = blocks, cache_enabled = False, vision_enabled = False,
      function_calling_enabled = fc, tool_calls = None, tool_call_id = None, name = None\<rparr>"

definition sample_response_content :: "content_block list" where
  "sample_response_content =
     [Text (new_TextContent ''Done.'' False),
      ToolResponse (new_ToolResponseContent ''call_1'' ''run'' ''a.txt''),
      Image (new_ImageContent [''http://x/a.png''] False),
      ToolResponse (new_ToolResponseContent ''call_2'' ''stop'' ''ignored'')]"

text \<open>Templates, conversations and tool schemas for the rewriter.\<close>

definition sample_templates :: templates where
  "sample_templates =
     \<lparr>SYSTEM_PROMPT_SUFFIX_TEMPLATE = (\<lambda>description. ''TOOLS:'' @ description),
      IN_CONTEXT_LEARNING_EXAMPLE_PREFIX = ''EXAMPLE START\<newline>'',
      IN_CONTEXT_LEARNING_EXAMPLE_SUFFIX = ''\<newline>EXAMPLE END''\<rparr>"

definition two_user_turns :: "dict list" where
  "two_user_turns =
     [[(''role'', JString ''user''), (''content'', JString ''List files'')],
      [(''role'', JString ''user''), (''content'', JString ''Again'')]]"

definition two_user_turns_out :: "dict list" where
  "two_user_turns_out =
     [[(''role'', JString ''user''),
       (''content'', JString ''EXAMPLE START\<newline>List files\<newline>EXAMPLE END'')],
      [(''role'', JString ''user''), (''content'', JString ''Again'')]]"

definition one_call_message :: dict where
  "one_call_message =
     [(''role'', JString ''assistant''), (''content'', JNull),
      (''tool_calls'', JArray
         [JObject [(''id'', JString ''call_1''), (''type'', JString ''function''),
                   (''function'', JObject [(''name'', JString ''run''),
                                           (''arguments'', JString sample_arguments)])]])]"

definition two_calls_message :: dict where
  "two_calls_message =
     [(''role'', JString ''assistant''),
      (''tool_calls'', JArray
         [JObject [(''id'', JString ''call_1''), (''type'', JString ''function''),
                   (''function'', JObject [(''name'', JString ''run''),
                                           (''arguments'', JString ''{}'')])],
          JObject [(''id'', JString ''call_2''), (''type'', JString ''function''),
                   (''function'', JObject [(''name'', JString ''stop''),
                                           (''arguments'', JString ''{}'')])]])]"

definition bad_arguments_message :: dict where
  "bad_arguments_message =
     [(''role'', JString ''assistant''), (''content'', JNull),
      (''tool_calls'', JArray [JObject sample_bad_tool_call])]"



text \<open>A first user turn whose content is a list with an image and a text.\<close>

definition image_user_turn :: dict where
  "image_user_turn =
     [(''role'', JString ''user''),
      (''content'', JArray
         [JObject [(''type'', JString ''image_url''),
                   (''image_url'', JObject [(''url'', JString ''http://x/a.png'')])],
          JObject [(''type'', JString ''text''), (''text'', JString ''What is this?'')]])]"

definition sample_schemas :: "function_schema list" where
  "sample_schemas =
     [\<lparr>schema_name = ''run'', schema_description = ''Run a command.'',
       schema_parameters = Some
         \<lparr>properties = Some
            [(''command'', \<lparr>param_type = Some (JString ''string''),
                            param_description = Some ''The command.'', param_enum = None\<rparr>),
             (''mode'', \<lparr>param_type = None, param_description = None,
                         param_enum = Some [JString ''fast'', JString ''safe'']\<rparr>)],
          required = Some [''command'']\<rparr>\<rparr>,
      \<lparr>schema_name = ''stop'', schema_description = ''Stop.'', schema_parameters = None\<rparr>]"

section \<open>Properties of the block serializers and of the codec\<close>

lemma images_loop_map:
  "images_loop ''image_url'' urls images = images @ map spec_image_object urls"
  by (induction urls arbitrary: images) (simp_all add: spec_image_object_def)

text \<open>
  C6. An image block serializes to one object \<open>{type: "image_url", image_url: {url}}\<close>
  per URL, in URL order. When \<open>cache_prompt\<close> is set and there is at least one URL, the
  last object, and no other, also carries \<open>cache_control: {type: "ephemeral"}\<close>.
\<close>

theorem ImageContent_serialize_model_cache_control_last:
  "ImageContent_serialize_model (new_ImageContent urls cp) =
     (if cp \<and> urls \<noteq> []
      then map spec_image_object (butlast urls)
           @ [spec_image_object (last urls) @ [(''cache_control'', ephemeral)]]
      else map spec_image_object urls)"
proof -
  have loop: "images_loop ''image_url'' urls [] = map spec_image_object urls"
    by (simp add: images_loop_map)
  have set_last: "dict_set (spec_image_object u) ''cache_control'' ephemeral
      = spec_image_object u @ [(''cache_control'', ephemeral)]" for u
    by (simp add: dict_set_def dict_has_def spec_image_object_def)
  show ?thesis
  proof (cases "cp \<and> urls \<noteq> []")
    case False
    then show ?thesis
      by (auto simp: ImageContent_serialize_model_def new_ImageContent_def loop)
  next
    case True
    then have ne: "urls \<noteq> []" and cp: cp by simp_all
    have upd: "(map spec_image_object urls)[length urls - Suc 0 := x]
        = map spec_image_object (butlast urls) @ [x]" for x
    proof (cases urls rule: rev_cases)
      case Nil
      with ne show ?thesis by simp
    next
      case (snoc ys y)
      have "(map spec_image_object ys @ [spec_image_object y])[length (map spec_image_object ys) := x]
          = map spec_image_object ys @ [x]"
        by (rule list_update_length)
      then show ?thesis by (simp add: snoc)
    qed
    show ?thesis
      using ne cp
      by (simp add: ImageContent_serialize_model_def new_ImageContent_def loop upd
          last_map set_last)
  qed
qed

text \<open>The URLs \<open>["a", "b"]\<close> with \<open>cache_prompt\<close> set: two objects, the second with
  \<open>cache_control\<close>.\<close>

theorem ImageContent_serialize_model_ab:
  "ImageContent_serialize_model (new_ImageContent [''a'', ''b''] True) =
     [[(''type'', JString ''image_url''), (''image_url'', JObject [(''url'', JString ''a'')])],
      [(''type'', JString ''image_url''), (''image_url'', JObject [(''url'', JString ''b'')]),
       (''cache_control'', JObject [(''type'', JString ''ephemeral'')])]]"
  using ImageContent_serialize_model_cache_control_last [of "[''a'', ''b'']" True]
  by (simp add: spec_image_object_def ephemeral_def)

lemma params_loop_concat:
  "params_loop kvs ret = ret @ concat (map spec_parameter_line kvs)"
proof (induction kvs arbitrary: ret)
  case Nil
  show ?case by simp
next
  case (Cons kv kvs)
  obtain k v where kv: "kv = (k, v)" by (cases kv)
  show ?case
    by (cases v) (simp_all add: kv Cons.IH is_multiline_def spec_parameter_line_def
        spec_value_text_def py_str_def Let_def)
qed

text \<open>
  C8. When the arguments decode to a JSON object, the encoding is the opening line, one
  parameter line per key in the key order of the object, and the closing tag. A value is
  bracketed by newlines exactly when it is a string that holds a newline; any other value
  follows the opening tag directly, a value that is not a string as \<^verbatim>\<open>str\<close> renders it.
\<close>

theorem to_string_format_parameter_lines:
  "loads (function_arguments c) = Some (JObject kvs) \<Longrightarrow>
   ToolCallContent_to_string_format loads c =
     Inr (''<function='' @ function_name c @ ''>\<newline>''
          @ concat (map spec_parameter_line kvs) @ ''</function>'')"
proof -
  assume decoded: "loads (function_arguments c) = Some (JObject kvs)"
  have lines: "params_loop kvs (''<function='' @ function_name c @ ''>\<newline>'') =
      (''<function='' @ function_name c @ ''>\<newline>'') @ concat (map spec_parameter_line kvs)"
    by (rule params_loop_concat)
  have "ToolCallContent_to_string_format loads c =
      Inr (params_loop kvs (''<function='' @ function_name c @ ''>\<newline>'') @ ''</function>'')"
    using decoded by (simp add: ToolCallContent_to_string_format_def items_def then_do_def)
  with lines show ?thesis by simp
qed


text \<open>The arguments \<^verbatim>\<open>{"cmd": "ls -la\necho hi", "n": 3}\<close> of a function \<open>run\<close>: the multi-line
  value stands between two newlines, the number is inline.\<close>

theorem to_string_format_parameter_lines_run:
  "ToolCallContent_to_string_format sample_loads
     (new_ToolCallContent ''run'' sample_arguments ''call_1'') =
   Inr (''<function=run>\<newline>''
        @ ''<parameter=cmd>\<newline>ls -la\<newline>echo hi\<newline></parameter>\<newline>''
        @ ''<parameter=n>3</parameter>\<newline>''
        @ ''</function>'')"
proof -
  have "sample_loads (function_arguments (new_ToolCallContent ''run'' sample_arguments ''call_1''))
      = Some (JObject [(''cmd'', JString ''ls -la\<newline>echo hi''), (''n'', JInt 3)])"
    by (simp add: sample_loads_def sample_arguments_def new_ToolCallContent_def)
  from to_string_format_parameter_lines
    [of sample_loads "new_ToolCallContent ''run'' sample_arguments ''call_1''", OF this]
  show ?thesis
    by (simp add: new_ToolCallContent_def spec_parameter_line_def spec_value_text_def
        py_str_def str_int_def str_nat.simps)
qed

subsection \<open>Arguments that are not JSON\<close>

text \<open>
  \<^verbatim>\<open>FunctionCallConversionError\<close> is not among the names the module binds, so the
  \<^verbatim>\<open>raise\<close> in \<^verbatim>\<open>ToolCallContent.to_string_format\<close> ends in a \<^verbatim>\<open>NameError\<close>.
\<close>

lemma raise_FunctionCallConversionError_unbound:
  "raise_FunctionCallConversionError msg = NameError ''FunctionCallConversionError''"
  by (simp add: raise_FunctionCallConversionError_def module_globals_def)

lemma to_string_format_invalid_arguments:
  "loads (function_arguments c) = None \<Longrightarrow>
   ToolCallContent_to_string_format loads c = Inl (NameError ''FunctionCallConversionError'')"
  by (simp add: ToolCallContent_to_string_format_def raise_FunctionCallConversionError_unbound)

text \<open>
  C1, as the claim states it, fails on a raw tool-call dict: \<^verbatim>\<open>_tool_call_to_string\<close>
  raises a \<^verbatim>\<open>ValueError\<close>, not a \<^verbatim>\<open>FunctionCallConversionError\<close>.
\<close>

theorem tool_call_to_string_raises_ValueError:
  "tool_call_to_string sample_loads sample_bad_tool_call =
     Inl (ValueError ''Failed to parse arguments as JSON. Arguments: {'')"
  by (simp add: tool_call_to_string_def sample_bad_tool_call_def sample_loads_def
      sample_arguments_def dict_has_def dict_item_def then_do_def subscript_def)

text \<open>
  C1, amended. When the arguments string is not valid JSON, encoding a
  \<^verbatim>\<open>ToolCallContent\<close> fails: it returns no text, so no partial function block. Encoding a
  raw tool-call dict that has the keys \<open>function\<close>, \<open>id\<close> and \<open>type\<close> (the latter
  \<open>function\<close>) fails with a \<^verbatim>\<open>ValueError\<close> whose message ends with the offending
  arguments string, and returns no text either.
\<close>

theorem invalid_arguments_never_encode:
  "(loads (function_arguments c) = None \<longrightarrow>
      isl (ToolCallContent_to_string_format loads c))
   \<and> (map_of tool_call ''function'' = Some fn \<and> dict_has tool_call ''id''
        \<and> map_of tool_call ''type'' = Some (JString ''function'')
        \<and> subscript fn ''name'' = Inr fname
        \<and> subscript fn ''arguments'' = Inr (JString a) \<and> loads a = None \<longrightarrow>
      tool_call_to_string loads tool_call =
        Inl (ValueError (''Failed to parse arguments as JSON. Arguments: '' @ a)))"
  by (auto simp: ToolCallContent_to_string_format_def tool_call_to_string_def dict_has_def
      dict_item_def then_do_def)

theorem invalid_arguments_never_encode_witness:
  "isl (ToolCallContent_to_string_format sample_loads
          (new_ToolCallContent ''run'' ''{'' ''call_1''))
   \<and> tool_call_to_string sample_loads sample_bad_tool_call =
        Inl (ValueError (''Failed to parse arguments as JSON. Arguments: '' @ ''{''))"
  using invalid_arguments_never_encode
    [of sample_loads "new_ToolCallContent ''run'' ''{'' ''call_1''" sample_bad_tool_call
        "JObject [(''name'', JString ''run''), (''arguments'', JString ''{'')]"
        "JString ''run''" "''{''"]
  by (simp add: sample_bad_tool_call_def sample_loads_def sample_arguments_def
      new_ToolCallContent_def dict_has_def subscript_def dict_item_def)

section \<open>Properties of the message serializers\<close>

text \<open>
  C2. A message whose content is the single text block \<open>hello\<close> serializes, under each
  combination of the flags, to the role and the content: the string \<open>hello\<close> when
  neither \<open>cache_enabled\<close> nor \<open>vision_enabled\<close> is set, the one-element list
  \<open>[{type: "text", text: "hello"}]\<close> otherwise, in the native and in the non-native mode.
\<close>

theorem serialize_hello_format_matrix:
  "Message.content m = [Text (new_TextContent ''hello'' False)] \<Longrightarrow>
   Message_serialize_model loads m =
     Inr [(''role'', JString (role_str (role m))),
          (''content'',
             if cache_enabled m \<or> vision_enabled m
             then JArray [JObject [(''type'', JString ''text''), (''text'', JString ''hello'')]]
             else JString ''hello'')]"
  by (simp add: Message_serialize_model_def native_function_serializer_def
      string_function_serializer_def then_do_def dict_set_def dict_has_def
      new_TextContent_def TextContent_serialize_model_def Let_def)

text \<open>The four combinations, on a user message.\<close>

theorem serialize_hello_four_formats:
  "Message_serialize_model sample_loads (hello_message False False False) = Inr hello_string
   \<and> Message_serialize_model sample_loads (hello_message False False True) = Inr hello_string
   \<and> Message_serialize_model sample_loads (hello_message True False False) = Inr hello_list
   \<and> Message_serialize_model sample_loads (hello_message False True True) = Inr hello_list"
  using serialize_hello_format_matrix [of "hello_message False False False" sample_loads]
    serialize_hello_format_matrix [of "hello_message False False True" sample_loads]
    serialize_hello_format_matrix [of "hello_message True False False" sample_loads]
    serialize_hello_format_matrix [of "hello_message False True True" sample_loads]
  by (simp add: hello_message_def hello_string_def hello_list_def role_str_def)

lemma spec_block_text_simps:
  "spec_block_text loads (Text t) = [text t]"
  "spec_block_text loads (Image i) = []"
  "spec_block_text loads (ToolResponse r) =
     [''EXECUTION RESULT of ['' @ ToolResponseContent.name r @ '']:\<newline>''
      @ ToolResponseContent.content r]"
  "ToolCallContent_to_string_format loads c = Inr s \<Longrightarrow>
   spec_block_text loads (ToolCall c) = [s]"
  by (simp_all add: spec_block_text_def)

lemma content_parts_loop_spec:
  "(\<forall>c. ToolCall c \<in> set blocks \<longrightarrow> \<not> isl (ToolCallContent_to_string_format loads c)) \<Longrightarrow>
   content_parts_loop loads blocks parts =
     Inr (parts @ concat (map (spec_block_text loads) blocks))"
proof (induction blocks arbitrary: parts)
  case Nil
  show ?case by simp
next
  case (Cons b blocks)
  then have IH: "content_parts_loop loads blocks ps =
      Inr (ps @ concat (map (spec_block_text loads) blocks))" for ps
    by simp
  show ?case
  proof (cases b)
    case (ToolCall c)
    with Cons.prems obtain s where "ToolCallContent_to_string_format loads c = Inr s"
      by (cases "ToolCallContent_to_string_format loads c") auto
    with ToolCall show ?thesis by (simp add: IH spec_block_text_simps)
  qed (simp_all add: IH spec_block_text_simps ToolResponseContent_to_string_format_def)
qed

text \<open>
  C7. With \<open>function_calling_enabled\<close>, \<open>cache_enabled\<close> and \<open>vision_enabled\<close> all
  unset, and every tool call of the message encodable, the output is the role and a content
  string: the renderings of the blocks, in content order, joined by newlines. A text block
  contributes its text, a tool call its encoding, a tool response the
  \<open>EXECUTION RESULT\<close> line and its content, an image block nothing.
\<close>

theorem string_mode_content_is_joined_renderings:
  assumes "\<not> function_calling_enabled m" and "\<not> cache_enabled m" and "\<not> vision_enabled m"
    and "\<forall>c. ToolCall c \<in> set (Message.content m)
           \<longrightarrow> \<not> isl (ToolCallContent_to_string_format loads c)"
  shows "Message_serialize_model loads m =
     Inr [(''role'', JString (role_str (role m))),
          (''content'',
             JString (join ''\<newline>''
               (concat (map (spec_block_text loads) (Message.content m)))))]"
  using assms
  by (simp add: Message_serialize_model_def string_function_serializer_def then_do_def
      content_parts_loop_spec dict_set_def dict_has_def)

lemma sample_encodings:
  "ToolCallContent_to_string_format sample_loads
     (new_ToolCallContent ''run'' sample_arguments ''call_1'') =
   Inr (''<function=run>\<newline><parameter=cmd>\<newline>ls -la\<newline>echo hi\<newline></parameter>\<newline><parameter=n>3</parameter>\<newline></function>'')"
  "ToolCallContent_to_string_format sample_loads (new_ToolCallContent ''stop'' ''{}'' ''call_2'')
     = Inr ''<function=stop>\<newline></function>''"
  by (simp_all add: ToolCallContent_to_string_format_def sample_loads_def sample_arguments_def
      new_ToolCallContent_def items_def then_do_def is_multiline_def py_str_def str_int_def
      str_nat.simps)

text \<open>A message with a text, an image, two tool calls and a tool response.\<close>

theorem string_mode_sample:
  "Message_serialize_model sample_loads (sample_message sample_mixed_content False) =
     Inr [(''role'', JString ''assistant''),
          (''content'', JString
             (''Listing.\<newline>''
              @ ''<function=run>\<newline><parameter=cmd>\<newline>ls -la\<newline>echo hi\<newline></parameter>\<newline><parameter=n>3</parameter>\<newline></function>\<newline>''
              @ ''EXECUTION RESULT of [run]:\<newline>a.txt\<newline>''
              @ ''<function=stop>\<newline></function>''))]"
proof -
  have ok: "\<forall>c. ToolCall c \<in> set (Message.content (sample_message sample_mixed_content False))
      \<longrightarrow> \<not> isl (ToolCallContent_to_string_format sample_loads c)"
    by (auto simp: sample_message_def sample_mixed_content_def sample_encodings)
  from string_mode_content_is_joined_renderings
    [of "sample_message sample_mixed_content False" sample_loads, OF _ _ _ ok]
  show ?thesis
    by (simp add: sample_message_def sample_mixed_content_def spec_block_text_simps
        sample_encodings new_TextContent_def new_ToolResponseContent_def role_str_def)
qed

text \<open>A tool call that cannot be encoded makes the serialization fail.\<close>

lemma content_parts_loop_fails:
  "ToolCall c \<in> set blocks \<Longrightarrow> isl (ToolCallContent_to_string_format loads c) \<Longrightarrow>
   isl (content_parts_loop loads blocks parts)"
proof (induction blocks arbitrary: parts)
  case Nil
  then show ?case by simp
next
  case (Cons b blocks)
  show ?case
  proof (cases b)
    case (ToolCall c')
    show ?thesis
    proof (cases "ToolCallContent_to_string_format loads c'")
      case (Inl e)
      with ToolCall show ?thesis by simp
    next
      case (Inr s)
      with ToolCall Cons show ?thesis by auto
    qed
  qed (use Cons in auto)
qed

lemma first_tool_call_append:
  "\<forall>c. ToolCall c \<notin> set pre \<Longrightarrow> first_tool_call (pre @ rest) = first_tool_call rest"
  by (induction pre rule: first_tool_call.induct) auto

lemma first_tool_response_append:
  "\<forall>c. ToolResponse c \<notin> set pre \<Longrightarrow>
   first_tool_response (pre @ rest) = first_tool_response rest"
  by (induction pre rule: first_tool_response.induct) auto

lemma first_tool_call_None:
  "\<forall>c. ToolCall c \<notin> set blocks \<Longrightarrow> first_tool_call blocks = None"
  by (induction blocks rule: first_tool_call.induct) auto

text \<open>
  C3. With \<open>function_calling_enabled\<close> set: when the content holds a tool call, the output
  is the role, a null content and \<open>tool_calls\<close> with the single entry built from the first
  tool call, and nothing else. When it holds no tool call but a tool response, the output
  is the role, the content string of the first tool response, and that block's
  \<open>tool_call_id\<close> and \<open>name\<close>, and nothing else.
\<close>

theorem native_serializer_first_match:
  assumes "function_calling_enabled m"
  shows "(Message.content m = pre @ ToolCall tc # post \<and> (\<forall>c. ToolCall c \<notin> set pre) \<longrightarrow>
            Message_serialize_model loads m =
              Inr [(''role'', JString (role_str (role m))),
                   (''content'', JNull),
                   (''tool_calls'', JArray [spec_native_tool_call tc])])
       \<and> (Message.content m = pre @ ToolResponse tr # post
            \<and> (\<forall>c. ToolCall c \<notin> set (Message.content m))
            \<and> (\<forall>c. ToolResponse c \<notin> set pre) \<longrightarrow>
            Message_serialize_model loads m =
              Inr [(''role'', JString (role_str (role m))),
                   (''content'', JString (ToolResponseContent.content tr)),
                   (''tool_call_id'', JString (ToolResponseContent.tool_call_id tr)),
                   (''name'', JString (ToolResponseContent.name tr))])"
proof (intro conjI impI)
  assume a: "Message.content m = pre @ ToolCall tc # post \<and> (\<forall>c. ToolCall c \<notin> set pre)"
  then have "first_tool_call (Message.content m) = Some tc"
    by (simp add: first_tool_call_append)
  with assms show "Message_serialize_model loads m =
      Inr [(''role'', JString (role_str (role m))), (''content'', JNull),
           (''tool_calls'', JArray [spec_native_tool_call tc])]"
    by (simp add: Message_serialize_model_def native_function_serializer_def dict_set_def
        dict_has_def spec_native_tool_call_def)
next
  assume a: "Message.content m = pre @ ToolResponse tr # post
      \<and> (\<forall>c. ToolCall c \<notin> set (Message.content m))
      \<and> (\<forall>c. ToolResponse c \<notin> set pre)"
  then have "\<forall>c. ToolCall c \<notin> set (Message.content m)"
    by blast
  then have none: "first_tool_call (Message.content m) = None"
    by (rule first_tool_call_None)
  from a have "first_tool_response (Message.content m) = Some tr"
    by (simp add: first_tool_response_append)
  with assms none show "Message_serialize_model loads m =
      Inr [(''role'', JString (role_str (role m))),
           (''content'', JString (ToolResponseContent.content tr)),
           (''tool_call_id'', JString (ToolResponseContent.tool_call_id tr)),
           (''name'', JString (ToolResponseContent.name tr))]"
    by (simp add: Message_serialize_model_def native_function_serializer_def dict_set_def
        dict_has_def)
qed

text \<open>Two tool calls around a tool response; two tool responses around an image.\<close>

theorem native_serializer_first_match_sample:
  "Message_serialize_model sample_loads (sample_message sample_mixed_content True) =
     Inr [(''role'', JString ''assistant''),
          (''content'', JNull),
          (''tool_calls'', JArray [JObject
             [(''id'', JString ''call_1''), (''type'', JString ''function''),
              (''function'', JObject
                 [(''name'', JString ''run''), (''arguments'', JString sample_arguments)])]])]
   \<and> Message_serialize_model sample_loads (sample_message sample_response_content True) =
     Inr [(''role'', JString ''assistant''),
          (''content'', JString ''a.txt''),
          (''tool_call_id'', JString ''call_1''),
          (''name'', JString ''run'')]"
  using native_serializer_first_match
    [of "sample_message sample_mixed_content True"
        "[Text (new_TextContent ''Listing.'' False),
          Image (new_ImageContent [''http://x/a.png''] False)]"
        "new_ToolCallContent ''run'' sample_arguments ''call_1''"
        "[ToolResponse (new_ToolResponseContent ''call_1'' ''run'' ''a.txt''),
          ToolCall (new_ToolCallContent ''stop'' ''{}'' ''call_2'')]"
        sample_loads]
    native_serializer_first_match
    [where m = "sample_message sample_response_content True"
       and pre = "[Text (new_TextContent ''Done.'' False)]"
       and tr = "new_ToolResponseContent ''call_1'' ''run'' ''a.txt''"
       and post = "[Image (new_ImageContent [''http://x/a.png''] False),
          ToolResponse (new_ToolResponseContent ''call_2'' ''stop'' ''ignored'')]"
       and loads = sample_loads]
  by (simp add: sample_message_def sample_mixed_content_def sample_response_content_def
      spec_native_tool_call_def new_ToolCallContent_def new_ToolResponseContent_def
      role_str_def)

section \<open>Properties of the tool-description renderer\<close>

text \<open>The lookups the renderer makes in the dict of a schema, then the two loops.\<close>

lemma map_of_param_dict:
  "map_of (param_dict p) ''type'' = param_type p"
  "map_of (param_dict p) ''description'' = map_option JString (param_description p)"
  "map_of (param_dict p) ''enum'' = map_option JArray (param_enum p)"
  by (auto simp: param_dict_def split: option.splits)

lemma params_description_loop_spec:
  "params_description_loop (map JString req) j (map property_entry props) ret =
     Inr (ret @ concat (map (spec_param_line req) (enumerate (Suc j) props)))"
proof (induction props arbitrary: j ret)
  case Nil
  show ?case by simp
next
  case (Cons np props)
  obtain pname p where np: "np = (pname, p)" by (cases np)
  have mem: "(JString pname \<in> set (map JString req)) = (pname \<in> set req)"
    by auto
  show ?case
    unfolding np property_entry_def fst_conv snd_conv list.map params_description_loop.simps
      Let_def mem
    by (cases "param_type p"; cases "param_description p"; cases "param_enum p")
       (simp_all add: method_get_def dict_get_def map_of_param_dict then_do_def
          contains_key_def dict_has_def subscript_def dict_item_def py_iter_def iadd_str_def
          py_str_def spec_param_line_def Cons.IH [unfolded property_entry_def])
qed

lemma parameters_dict_get:
  "method_get (JObject (parameters_dict ps)) ''properties'' (JObject []) =
     Inr (JObject (map property_entry (case properties ps of None \<Rightarrow> [] | Some x \<Rightarrow> x)))"
  "method_get (JObject (parameters_dict ps)) ''required'' (JArray []) =
     Inr (JArray (map JString (case required ps of None \<Rightarrow> [] | Some r \<Rightarrow> r)))"
  by (auto simp: parameters_dict_def method_get_def dict_get_def split: option.splits)

lemma function_dict_lookup:
  "subscript (JObject (function_dict f)) ''name'' = Inr (JString (schema_name f))"
  "subscript (JObject (function_dict f)) ''description'' = Inr (JString (schema_description f))"
  "contains_key (JObject (function_dict f)) ''parameters'' = (schema_parameters f \<noteq> None)"
  by (cases "schema_parameters f";
      simp add: function_dict_def subscript_def dict_item_def contains_key_def dict_has_def)+

lemma function_dict_parameters:
  "schema_parameters f = Some ps \<Longrightarrow>
     subscript (JObject (function_dict f)) ''parameters'' = Inr (JObject (parameters_dict ps))"
  by (simp add: function_dict_def subscript_def dict_item_def)

lemma py_set_strings: "py_set (JArray (map JString r)) = Inr (map JString r)"
  by (simp add: py_set_def py_iter_def then_do_def list_all_iff hashable_def)

lemma parameters_lines_spec:
  "parameters_lines (JObject (function_dict f)) ret =
     Inr (ret @ spec_parameters_text (schema_parameters f))"
proof (cases "schema_parameters f")
  case None
  then show ?thesis
    by (simp add: parameters_lines_def function_dict_lookup spec_parameters_text_def)
next
  case (Some ps)
  then show ?thesis
    by (simp add: parameters_lines_def function_dict_lookup function_dict_parameters
        parameters_dict_get then_do_def py_set_strings items_def params_description_loop_spec spec_parameters_text_def)
qed

lemma tool_dict_lookup:
  "dict_item (tool_dict f) ''type'' = Inr (JString ''function'')"
  "dict_item (tool_dict f) ''function'' = Inr (JObject (function_dict f))"
  by (simp_all add: tool_dict_def dict_item_def)

lemma tools_loop_spec:
  "tools_loop i (map tool_dict fs) ret =
     Inr (ret @ concat (map (\<lambda>it. (if 1 < fst it then ''\<newline>'' else []) @ spec_tool_block it)
                         (enumerate (Suc i) fs)))"
proof (induction fs arbitrary: i ret)
  case Nil
  show ?case by simp
next
  case (Cons f fs)
  show ?case
    by (simp add: tool_dict_lookup function_dict_lookup parameters_lines_spec then_do_def
        py_str_def Cons.IH spec_tool_block_def)
qed

text \<open>Prefixing every block but the first with a newline is joining the blocks by it.\<close>

lemma join_concat: "join sep (x # xs) = x @ concat (map (\<lambda>y. sep @ y) xs)"
  by (induction xs arbitrary: x) simp_all

lemma later_blocks:
  "1 < n \<Longrightarrow>
   concat (map (\<lambda>it. (if Suc 0 < fst it then sep else []) @ g it) (enumerate n fs))
     = concat (map (\<lambda>it. sep @ g it) (enumerate n fs))"
  by (induction fs arbitrary: n) simp_all

lemma separated_blocks:
  "concat (map (\<lambda>it. (if Suc 0 < fst it then sep else []) @ g it) (enumerate (Suc 0) fs))
     = join sep (map g (enumerate (Suc 0) fs))"
proof (cases fs)
  case Nil
  then show ?thesis by simp
next
  case (Cons f fs')
  have "concat (map (\<lambda>it. (if Suc 0 < fst it then sep else []) @ g it) (enumerate (Suc (Suc 0)) fs'))
      = concat (map (\<lambda>it. sep @ g it) (enumerate (Suc (Suc 0)) fs'))"
    by (rule later_blocks) simp
  then show ?thesis
    by (simp add: Cons join_concat comp_def)
qed

text \<open>
  C9. On the raw dicts of a list of tool schemas the renderer returns the rendering of the
  specification: functions and parameters numbered from 1 in input order, consecutive tool
  blocks separated by a blank line, the line \<open>No parameters are required for this
  function.\<close> for a tool without \<open>parameters\<close>, \<open>required\<close> or \<open>optional\<close> by membership
  of the parameter name in the \<open>required\<close> list, and for an enum the line \<open>Allowed
  values\<close> with the values in backticks, joined by a comma and a space.
\<close>

theorem tools_to_description_renders_spec:
  "tools_to_description (map tool_dict fs) = Inr (spec_tools_description fs)"
  by (simp add: tools_to_description_def tools_loop_spec separated_blocks
      spec_tools_description_def)

text \<open>Two tools: one with a required parameter and an enum parameter, one without
  parameters.\<close>

theorem tools_to_description_sample:
  "tools_to_description (map tool_dict sample_schemas) =
     Inr (''---- BEGIN FUNCTION #1: run ----\<newline>''
          @ ''Description: Run a command.\<newline>''
          @ ''Parameters:\<newline>''
          @ ''  (1) command (string, required): The command.\<newline>''
          @ ''  (2) mode (string, optional): No description provided\<newline>''
          @ ''Allowed values: [`fast`, `safe`]\<newline>''
          @ ''---- END FUNCTION #1 ----\<newline>''
          @ ''\<newline>''
          @ ''---- BEGIN FUNCTION #2: stop ----\<newline>''
          @ ''Description: Stop.\<newline>''
          @ ''No parameters are required for this function.\<newline>''
          @ ''---- END FUNCTION #2 ----\<newline>'')"
  using tools_to_description_renders_spec [of sample_schemas]
  by (simp add: sample_schemas_def spec_tools_description_def spec_tool_block_def
      spec_parameters_text_def spec_param_line_def py_str_def str_nat.simps)

section \<open>Properties of the conversation rewriter\<close>

text \<open>Sequencing: a chain of steps returns a value exactly when each step does.\<close>

lemma then_do_Inr_iff: "then_do r f = Inr y \<longleftrightarrow> (\<exists>x. r = Inr x \<and> f x = Inr y)"
  by (cases r) (simp_all add: then_do_def)

lemma then_do_Inr [simp]: "then_do (Inr x) f = f x"
  by (simp add: then_do_def)

lemma then_do_Inl [simp]: "then_do (Inl e) f = Inl e"
  by (simp add: then_do_def)

text \<open>
  The loop. The flag after a message is set when it was set before or the message is a user
  turn; a list splits at any point; and the entry at index \<open>i\<close> of a successful rewrite is
  what the loop body returns for message \<open>i\<close>, with the flag telling whether a user turn
  came before.
\<close>

lemma convert_message_flag:
  assumes "convert_message loads T sfx message fu = Inr (d, fu')"
  shows "fu' = (fu \<or> is_user message)"
proof (cases "map_of message ''role''")
  case None
  with assms show ?thesis
    by (simp add: convert_message_def dict_item_def)
next
  case (Some r)
  consider (system) "r = JString ''system''"
    | (user) "r = JString ''user''" "\<not> fu"
    | (assistant) "r = JString ''assistant''" "dict_has message ''tool_calls''"
    | (tool) "r = JString ''tool''"
    | (other) "r \<noteq> JString ''system''" "\<not> (r = JString ''user'' \<and> \<not> fu)"
        "\<not> (r = JString ''assistant'' \<and> dict_has message ''tool_calls'')"
        "r \<noteq> JString ''tool''"
    by blast
  then show ?thesis
  proof cases
    case system
    with Some assms show ?thesis
      by (auto simp: convert_message_def dict_item_def is_user_def then_do_Inr_iff Let_def)
  next
    case user
    with Some assms show ?thesis
      by (auto simp: convert_message_def dict_item_def is_user_def then_do_Inr_iff Let_def)
  next
    case assistant
    with Some assms show ?thesis
      by (auto simp: convert_message_def dict_item_def is_user_def then_do_Inr_iff Let_def
          split: if_splits)
  next
    case tool
    with Some assms show ?thesis
      by (auto simp: convert_message_def dict_item_def is_user_def then_do_Inr_iff Let_def)
  next
    case other
    with Some assms show ?thesis
      by (auto simp: convert_message_def dict_item_def is_user_def Let_def)
  qed
qed

lemma seen_user_simps:
  "seen_user [] = False"
  "seen_user (m # ms) = (is_user m \<or> seen_user ms)"
  by (simp_all add: seen_user_def)

lemma convert_loop_append:
  "convert_loop loads T sfx (pre @ rest) fu acc =
     (case convert_loop loads T sfx pre fu acc of
        Inl e \<Rightarrow> Inl e
      | Inr acc' \<Rightarrow> convert_loop loads T sfx rest (fu \<or> seen_user pre) acc')"
proof (induction pre arbitrary: fu acc)
  case Nil
  show ?case by (simp add: seen_user_simps)
next
  case (Cons m pre)
  show ?case
  proof (cases "convert_message loads T sfx m fu")
    case (Inl e)
    then show ?thesis by simp
  next
    case (Inr p)
    obtain d fu' where p: "p = (d, fu')" by (cases p)
    from Inr p have "fu' = (fu \<or> is_user m)"
      by (simp add: convert_message_flag)
    with Inr p show ?thesis
      by (simp add: Cons.IH seen_user_simps split: sum.splits)
  qed
qed

lemma convert_loop_extends:
  "convert_loop loads T sfx messages fu acc = Inr out \<Longrightarrow>
   \<exists>out'. out = acc @ out' \<and> length out' = length messages"
proof (induction messages arbitrary: fu acc)
  case Nil
  then show ?case by simp
next
  case (Cons m messages)
  from Cons.prems obtain d fu' where
    step: "convert_message loads T sfx m fu = Inr (d, fu')"
    and rest: "convert_loop loads T sfx messages fu' (acc @ [d]) = Inr out"
    by (auto split: sum.splits)
  from Cons.IH [OF rest] obtain out' where "out = (acc @ [d]) @ out'"
    and "length out' = length messages" by blast
  then show ?case by simp
qed


text \<open>
  A message built by the rewriter has all flags unset, so its dump is the string form; the
  blocks made from a raw content list are text and image blocks only.
\<close>

lemma new_Message_dump:
  "(\<forall>c. ToolCall c \<in> set blocks \<longrightarrow> \<not> isl (ToolCallContent_to_string_format loads c)) \<Longrightarrow>
   model_dump loads (new_Message r blocks) =
     Inr [(''role'', JString (role_str r)),
          (''content'', JString (join ''\<newline>'' (concat (map (spec_block_text loads) blocks))))]"
  by (simp add: model_dump_def new_Message_def Message_serialize_model_def
      string_function_serializer_def content_parts_loop_spec dict_set_def dict_has_def)

lemma validate_str_Inr_iff: "validate_str v = Inr s \<longleftrightarrow> v = JString s"
  by (cases v) (simp_all add: validate_str_def)

lemma block_of_item_text:
  assumes "block_of_item item = Inr b"
  shows "(\<forall>c. b \<noteq> ToolCall c) \<and> spec_block_text loads b = item_text item"
proof (cases "subscript item ''type'' = Inr (JString ''text'')")
  case True
  with assms show ?thesis
    by (auto simp: block_of_item_def item_text_def validate_str_Inr_iff then_do_Inr_iff
        spec_block_text_simps new_TextContent_def)
next
  case False
  with assms show ?thesis
    by (auto simp: block_of_item_def item_text_def validate_str_Inr_iff then_do_Inr_iff
        spec_block_text_simps split: if_splits)
qed

lemma blocks_of_items_texts:
  "blocks_of_items its = Inr bs \<Longrightarrow>
   (\<forall>c. ToolCall c \<notin> set bs)
   \<and> concat (map (spec_block_text loads) bs) = concat (map item_text its)"
proof (induction its arbitrary: bs)
  case Nil
  then show ?case by simp
next
  case (Cons item its)
  from Cons.prems obtain b bs' where b: "block_of_item item = Inr b"
    and bs': "blocks_of_items its = Inr bs'" and bs: "bs = b # bs'"
    by (auto split: sum.splits)
  from block_of_item_text [OF b, of loads] Cons.IH [OF bs'] bs show ?case
    by auto
qed

text \<open>The definitions to unfold when the rewriter runs on a sample input.\<close>

lemmas eval_defs =
  convert_messages_to_non_native_def tools_to_description_def convert_message_def
  dict_item_def dict_get_def dict_has_def dict_set_def model_dump_def new_Message_def
  Message_serialize_model_def string_function_serializer_def new_TextContent_def
  new_ImageContent_def new_ToolCallContent_def role_str_def sample_templates_def
  block_of_item_def subscript_def validate_str_def py_len_def index0_def truthy_def
  ToolCallContent_to_string_format_def items_def is_multiline_def py_str_def
  sample_loads_def sample_arguments_def str_int_def str_nat.simps
  raise_FunctionCallConversionError_def module_globals_def

lemma two_user_turns_converted:
  "convert_messages_to_non_native sample_loads sample_templates two_user_turns [] =
     Inr two_user_turns_out"
  by (simp add: eval_defs two_user_turns_def two_user_turns_out_def)

text \<open>The branch for an assistant message that carries \<open>tool_calls\<close>.\<close>

lemma convert_message_cardinality:
  "map_of m ''role'' = Some (JString ''assistant'') \<Longrightarrow>
   map_of m ''tool_calls'' = Some (JArray tcs) \<Longrightarrow> length tcs \<noteq> 1 \<Longrightarrow>
   convert_message loads T sfx m fu =
     Inl (ValueError (''Expected exactly one tool call, got '' @ str_nat (length tcs)))"
  by (simp add: convert_message_def dict_item_def dict_has_def py_len_def)

lemma assistant_content_list:
  assumes "plain_content m"
  shows "(if truthy (dict_get m ''content'' JNull)
          then then_do (dict_item m ''content'') (\<lambda>c.
               then_do (validate_str c) (\<lambda>s. Inr [Text (new_TextContent s False)]))
          else Inr [])
         = Inr (map (\<lambda>s. Text (new_TextContent s False)) (assistant_text m))"
proof (cases "map_of m ''content''")
  case None
  then show ?thesis
    by (simp add: dict_get_def truthy_def assistant_text_def)
next
  case (Some v)
  with assms show ?thesis
    by (cases v)
       (simp_all add: plain_content_def dict_get_def dict_item_def truthy_def assistant_text_def
          validate_str_def)
qed

lemma convert_message_one_tool_call:
  assumes "map_of m ''role'' = Some (JString ''assistant'')"
    and "map_of m ''tool_calls'' = Some (JArray [tc])"
    and "subscript tc ''function'' = Inr fn"
    and "subscript fn ''name'' = Inr (JString fname)"
    and "subscript fn ''arguments'' = Inr (JString fargs)"
    and "subscript tc ''id'' = Inr (JString tcid)"
    and "loads fargs = Some (JObject kvs)"
    and "plain_content m"
  shows "convert_message loads T sfx m fu =
     Inr ([(''role'', JString ''assistant''),
           (''content'', JString (join ''\<newline>''
              (assistant_text m
               @ [''<function='' @ fname @ ''>\<newline>'' @ concat (map spec_parameter_line kvs)
                  @ ''</function>''])))], fu)"
proof -
  let ?tc = "new_ToolCallContent fname fargs tcid"
  let ?blocks = "map (\<lambda>s. Text (new_TextContent s False)) (assistant_text m) @ [ToolCall ?tc]"
  have enc: "ToolCallContent_to_string_format loads ?tc =
      Inr (''<function='' @ fname @ ''>\<newline>'' @ concat (map spec_parameter_line kvs)
           @ ''</function>'')"
    using assms(7)
    by (simp add: ToolCallContent_to_string_format_def new_ToolCallContent_def items_def
        params_loop_concat)
  have texts: "concat (map (\<lambda>s. spec_block_text loads (Text (new_TextContent s False))) xs)
      = xs" for xs
    by (induction xs) (simp_all add: spec_block_text_simps new_TextContent_def)
  have "\<forall>c. ToolCall c \<in> set ?blocks \<longrightarrow> \<not> isl (ToolCallContent_to_string_format loads c)"
    using enc by auto
  from new_Message_dump [OF this, of Assistant]
  have dump: "model_dump loads (new_Message Assistant ?blocks) =
      Inr [(''role'', JString ''assistant''),
           (''content'', JString (join ''\<newline>''
              (assistant_text m
               @ [''<function='' @ fname @ ''>\<newline>'' @ concat (map spec_parameter_line kvs)
                  @ ''</function>''])))]"
    by (simp add: comp_def texts spec_block_text_simps(4) [OF enc] role_str_def)
  show ?thesis
    using assms(1-6)
    by (simp add: convert_message_def dict_item_def dict_has_def py_len_def index0_def
        assistant_content_list [OF assms(8)] validate_str_def dump)
qed

lemma convert_after_prefix:
  assumes "convert_messages_to_non_native loads T pre tools = Inr outs"
  shows "convert_messages_to_non_native loads T (pre @ m # post) tools =
     then_do (tools_to_description tools) (\<lambda>desc.
       case convert_message loads T (SYSTEM_PROMPT_SUFFIX_TEMPLATE T desc) m (seen_user pre) of
         Inl e \<Rightarrow> Inl e
       | Inr (d, fu) \<Rightarrow>
           convert_loop loads T (SYSTEM_PROMPT_SUFFIX_TEMPLATE T desc) post fu (outs @ [d]))"
proof -
  from assms obtain desc where desc: "tools_to_description tools = Inr desc"
    and loop: "convert_loop loads T (SYSTEM_PROMPT_SUFFIX_TEMPLATE T desc) pre False [] = Inr outs"
    by (auto simp: convert_messages_to_non_native_def then_do_Inr_iff)
  show ?thesis
    by (simp add: convert_messages_to_non_native_def desc convert_loop_append loop Let_def)
qed

text \<open>
  C4, as the claim states it, fails: an assistant message with exactly one tool call whose
  arguments are the text \<^verbatim>\<open>{\<close> does not rewrite; the rewrite of the list ends in an error.
\<close>

theorem assistant_with_one_bad_tool_call_fails:
  "isl (convert_messages_to_non_native sample_loads sample_templates [bad_arguments_message] [])"
  by (simp add: eval_defs bad_arguments_message_def sample_bad_tool_call_def)

text \<open>
  C4, amended. After messages that rewrite, an assistant message whose \<open>tool_calls\<close> list
  has a length other than 1 makes the rewrite fail with the \<^verbatim>\<open>ValueError\<close> that names the
  length. With exactly one tool call the length check passes, and the message rewrites,
  to the role and the content text followed by the encoded call, when the id, the function
  name and the arguments are strings, the arguments decode to a JSON object, and the
  content is absent, empty or a string.
\<close>

theorem assistant_tool_call_cardinality:
  assumes "convert_messages_to_non_native loads T pre tools = Inr outs"
    and "map_of m ''role'' = Some (JString ''assistant'')"
    and "map_of m ''tool_calls'' = Some (JArray tcs)"
  shows "(length tcs \<noteq> 1 \<longrightarrow>
            convert_messages_to_non_native loads T (pre @ m # post) tools =
              Inl (ValueError (''Expected exactly one tool call, got '' @ str_nat (length tcs))))
       \<and> (tcs = [tc] \<and> subscript tc ''function'' = Inr fn
            \<and> subscript fn ''name'' = Inr (JString fname)
            \<and> subscript fn ''arguments'' = Inr (JString fargs)
            \<and> subscript tc ''id'' = Inr (JString tcid)
            \<and> loads fargs = Some (JObject kvs) \<and> plain_content m \<longrightarrow>
            convert_messages_to_non_native loads T (pre @ [m]) tools =
              Inr (outs @
                [[(''role'', JString ''assistant''),
                  (''content'', JString (join ''\<newline>''
                     (assistant_text m
                      @ [''<function='' @ fname @ ''>\<newline>''
                         @ concat (map spec_parameter_line kvs) @ ''</function>''])))]]))"
proof -
  from assms(1) obtain desc where desc: "tools_to_description tools = Inr desc"
    by (auto simp: convert_messages_to_non_native_def then_do_Inr_iff)
  show ?thesis
  proof (intro conjI impI)
    assume "length tcs \<noteq> 1"
    from convert_message_cardinality [OF assms(2,3) this]
    show "convert_messages_to_non_native loads T (pre @ m # post) tools =
        Inl (ValueError (''Expected exactly one tool call, got '' @ str_nat (length tcs)))"
      by (simp add: convert_after_prefix [OF assms(1)] desc)
  next
    assume a: "tcs = [tc] \<and> subscript tc ''function'' = Inr fn
        \<and> subscript fn ''name'' = Inr (JString fname)
        \<and> subscript fn ''arguments'' = Inr (JString fargs)
        \<and> subscript tc ''id'' = Inr (JString tcid)
        \<and> loads fargs = Some (JObject kvs) \<and> plain_content m"
    with assms(3) have tc: "map_of m ''tool_calls'' = Some (JArray [tc])" by simp
    from a have "convert_message loads T (SYSTEM_PROMPT_SUFFIX_TEMPLATE T desc) m (seen_user pre)
        = Inr ([(''role'', JString ''assistant''),
           (''content'', JString (join ''\<newline>''
              (assistant_text m
               @ [''<function='' @ fname @ ''>\<newline>'' @ concat (map spec_parameter_line kvs)
                  @ ''</function>''])))], seen_user pre)"
      by (intro convert_message_one_tool_call [OF assms(2) tc, of fn fname fargs tcid loads kvs])
         simp_all
    then show "convert_messages_to_non_native loads T (pre @ [m]) tools =
        Inr (outs @
          [[(''role'', JString ''assistant''),
            (''content'', JString (join ''\<newline>''
               (assistant_text m
                @ [''<function='' @ fname @ ''>\<newline>''
                   @ concat (map spec_parameter_line kvs) @ ''</function>''])))]])"
      by (simp add: convert_after_prefix [OF assms(1)] desc)
  qed
qed

lemma empty_converted:
  "convert_messages_to_non_native sample_loads sample_templates [] [] = Inr []"
  by (simp add: eval_defs)

text \<open>Two tool calls are refused; one tool call is rewritten to text.\<close>

theorem assistant_tool_call_cardinality_sample:
  "convert_messages_to_non_native sample_loads sample_templates [two_calls_message] [] =
     Inl (ValueError ''Expected exactly one tool call, got 2'')
   \<and> convert_messages_to_non_native sample_loads sample_templates [one_call_message] [] =
     Inr [[(''role'', JString ''assistant''),
           (''content'', JString ''<function=run>\<newline><parameter=cmd>\<newline>ls -la\<newline>echo hi\<newline></parameter>\<newline><parameter=n>3</parameter>\<newline></function>'')]]"
  using assistant_tool_call_cardinality
    [OF empty_converted, where m = two_calls_message and post = "[]"
       and tcs = "[JObject [(''id'', JString ''call_1''), (''type'', JString ''function''),
                   (''function'', JObject [(''name'', JString ''run''),
                                           (''arguments'', JString ''{}'')])],
          JObject [(''id'', JString ''call_2''), (''type'', JString ''function''),
                   (''function'', JObject [(''name'', JString ''stop''),
                                           (''arguments'', JString ''{}'')])]]"]
    assistant_tool_call_cardinality
    [OF empty_converted, where m = one_call_message
       and tcs = "[JObject [(''id'', JString ''call_1''), (''type'', JString ''function''),
                   (''function'', JObject [(''name'', JString ''run''),
                                           (''arguments'', JString sample_arguments)])]]"
       and tc = "JObject [(''id'', JString ''call_1''), (''type'', JString ''function''),
                   (''function'', JObject [(''name'', JString ''run''),
                                           (''arguments'', JString sample_arguments)])]"
       and fn = "JObject [(''name'', JString ''run''), (''arguments'', JString sample_arguments)]"
       and fname = "''run''" and fargs = sample_arguments and tcid = "''call_1''"
       and kvs = "[(''cmd'', JString ''ls -la\<newline>echo hi''), (''n'', JInt 3)]"]
  by (simp add: two_calls_message_def one_call_message_def subscript_def dict_item_def
      plain_content_def assistant_text_def dict_get_def truthy_def sample_loads_def
      sample_arguments_def spec_parameter_line_def spec_value_text_def py_str_def str_int_def
      str_nat.simps)

text \<open>
  A user turn. A list of well-formed items always yields blocks, and the loop body returns
  the entry of the specification and sets the flag.
\<close>

lemma block_of_item_ok: "content_item_ok item \<Longrightarrow> \<exists>b. block_of_item item = Inr b"
  by (auto simp: content_item_ok_def block_of_item_def validate_str_def
      split: sum.splits json.splits if_splits)

lemma blocks_of_items_ok: "list_all content_item_ok its \<Longrightarrow> \<exists>bs. blocks_of_items its = Inr bs"
proof (induction its)
  case Nil
  show ?case by simp
next
  case (Cons item its)
  from Cons.prems have "content_item_ok item" and "list_all content_item_ok its"
    by simp_all
  from block_of_item_ok [OF this(1)] Cons.IH [OF this(2)]
  obtain b bs where "block_of_item item = Inr b" and "blocks_of_items its = Inr bs"
    by blast
  then show ?case by simp
qed

lemma wrapped_items_dump:
  assumes "blocks_of_items its = Inr bs"
  shows "model_dump loads (new_Message User
           ([Text (new_TextContent p False)] @ bs @ [Text (new_TextContent s False)])) =
     Inr [(''role'', JString ''user''),
          (''content'', JString (join ''\<newline>'' ([p] @ concat (map item_text its) @ [s])))]"
proof -
  from blocks_of_items_texts [OF assms, of loads]
  have "\<forall>c. ToolCall c \<in> set ([Text (new_TextContent p False)] @ bs
            @ [Text (new_TextContent s False)])
          \<longrightarrow> \<not> isl (ToolCallContent_to_string_format loads c)"
    and "concat (map (spec_block_text loads) bs) = concat (map item_text its)"
    by auto
  then show ?thesis
    by (simp add: new_Message_dump spec_block_text_simps new_TextContent_def role_str_def)
qed

lemma convert_message_user:
  assumes "is_user m" and "fu \<or> wrappable (dict_get m ''content'' (JString []))"
  shows "convert_message loads T sfx m fu = Inr (spec_user_entry T fu m, True)"
proof (cases fu)
  case True
  with assms(1) show ?thesis
    by (simp add: convert_message_def dict_item_def is_user_def spec_user_entry_def)
next
  case False
  have role: "dict_item m ''role'' = Inr (JString ''user'')"
    using assms(1) by (simp add: is_user_def dict_item_def)
  from False assms(2) have w: "wrappable (dict_get m ''content'' (JString []))"
    by simp
  show ?thesis
  proof (cases "dict_get m ''content'' (JString [])")
    case (JString c)
    have "model_dump loads (new_Message User [Text (new_TextContent
            (IN_CONTEXT_LEARNING_EXAMPLE_PREFIX T @ c @ IN_CONTEXT_LEARNING_EXAMPLE_SUFFIX T)
            False)])
        = Inr [(''role'', JString ''user''),
               (''content'', JString (IN_CONTEXT_LEARNING_EXAMPLE_PREFIX T @ c
                                      @ IN_CONTEXT_LEARNING_EXAMPLE_SUFFIX T))]"
      by (simp add: new_Message_dump spec_block_text_simps new_TextContent_def role_str_def)
    with False JString show ?thesis
      by (simp add: convert_message_def role spec_user_entry_def spec_wrapped_def)
  next
    case (JArray its)
    with w have "list_all content_item_ok its"
      by (simp add: wrappable_def)
    then obtain bs where bs: "blocks_of_items its = Inr bs"
      using blocks_of_items_ok by blast
    from wrapped_items_dump [OF bs] False JArray bs show ?thesis
      by (simp add: convert_message_def role spec_user_entry_def spec_wrapped_def)
  qed (use w in \<open>simp_all add: wrappable_def\<close>)
qed

text \<open>
  C5. After messages that rewrite, a user message rewrites too, and only the first user
  message of the list gets the in-context example: the entry of a user message that comes
  after another user message is that raw message, unchanged, so nothing is injected into
  it; the entry of the first user message, whose content is a string or a list of
  well-formed items, is its content between the prefix and the suffix. The same entry
  stands at the position of the message in the rewrite of any longer list.
\<close>

theorem only_first_user_message_is_wrapped:
  assumes "convert_messages_to_non_native loads T pre tools = Inr outs"
    and "is_user m"
    and "seen_user pre \<or> wrappable (dict_get m ''content'' (JString []))"
  shows "convert_messages_to_non_native loads T (pre @ [m]) tools =
           Inr (outs @ [spec_user_entry T (seen_user pre) m])
       \<and> (convert_messages_to_non_native loads T (pre @ m # post) tools = Inr out \<longrightarrow>
            length out = length pre + 1 + length post
            \<and> out ! length pre = spec_user_entry T (seen_user pre) m)"
proof -
  let ?entry = "spec_user_entry T (seen_user pre) m"
  from assms(1) obtain desc where desc: "tools_to_description tools = Inr desc"
    and loop: "convert_loop loads T (SYSTEM_PROMPT_SUFFIX_TEMPLATE T desc) pre False [] = Inr outs"
    by (auto simp: convert_messages_to_non_native_def then_do_Inr_iff)
  from convert_loop_extends [OF loop] have len: "length outs = length pre"
    by auto
  have step: "convert_message loads T (SYSTEM_PROMPT_SUFFIX_TEMPLATE T desc) m (seen_user pre)
      = Inr (?entry, True)"
    by (rule convert_message_user [OF assms(2,3)])
  have single: "convert_messages_to_non_native loads T (pre @ [m]) tools = Inr (outs @ [?entry])"
    by (simp add: convert_after_prefix [OF assms(1)] desc step)
  have nth: "length out = length pre + 1 + length post \<and> out ! length pre = ?entry"
    if "convert_messages_to_non_native loads T (pre @ m # post) tools = Inr out"
  proof -
    from that have "convert_loop loads T (SYSTEM_PROMPT_SUFFIX_TEMPLATE T desc) post True
        (outs @ [?entry]) = Inr out"
      by (simp add: convert_after_prefix [OF assms(1)] desc step)
    from convert_loop_extends [OF this] obtain out' where "out = (outs @ [?entry]) @ out'"
      and "length out' = length post"
      by blast
    with len show ?thesis
      by (simp add: nth_append)
  qed
  from single nth show ?thesis by blast
qed

text \<open>
  Two user turns: the first is wrapped, the second is passed through. A first user turn
  with an image and a text: the text stands between the prefix and the suffix.
\<close>

theorem only_first_user_message_is_wrapped_sample:
  "convert_messages_to_non_native sample_loads sample_templates two_user_turns [] =
     Inr [[(''role'', JString ''user''),
           (''content'', JString ''EXAMPLE START\<newline>List files\<newline>EXAMPLE END'')],
          [(''role'', JString ''user''), (''content'', JString ''Again'')]]
   \<and> convert_messages_to_non_native sample_loads sample_templates [image_user_turn] [] =
     Inr [[(''role'', JString ''user''),
           (''content'', JString ''EXAMPLE START\<newline>\<newline>What is this?\<newline>\<newline>EXAMPLE END'')]]"
proof -
  let ?first = "[(''role'', JString ''user''), (''content'', JString ''List files'')]"
  let ?second = "[(''role'', JString ''user''), (''content'', JString ''Again'')]"
  let ?wrapped = "[(''role'', JString ''user''),
      (''content'', JString ''EXAMPLE START\<newline>List files\<newline>EXAMPLE END'')]"
  have one: "convert_messages_to_non_native sample_loads sample_templates ([] @ [?first]) []
      = Inr ([] @ [?wrapped])"
    using only_first_user_message_is_wrapped [OF empty_converted, of ?first]
    by (simp add: is_user_def seen_user_def wrappable_def dict_get_def spec_user_entry_def
        spec_wrapped_def sample_templates_def)
  then have one': "convert_messages_to_non_native sample_loads sample_templates [?first] []
      = Inr [?wrapped]"
    by simp
  have two: "convert_messages_to_non_native sample_loads sample_templates ([?first] @ [?second]) []
      = Inr ([?wrapped] @ [?second])"
    using only_first_user_message_is_wrapped [OF one', of ?second]
    by (simp add: is_user_def seen_user_def spec_user_entry_def)
  have img: "convert_messages_to_non_native sample_loads sample_templates ([] @ [image_user_turn]) []
      = Inr ([] @ [[(''role'', JString ''user''),
           (''content'', JString ''EXAMPLE START\<newline>\<newline>What is this?\<newline>\<newline>EXAMPLE END'')]])"
    using only_first_user_message_is_wrapped [OF empty_converted, of image_user_turn]
    by (simp add: is_user_def seen_user_def wrappable_def dict_get_def spec_user_entry_def
        spec_wrapped_def sample_templates_def image_user_turn_def content_item_ok_def
        subscript_def dict_item_def item_text_def)
  from two img show ?thesis
    by (simp add: two_user_turns_def)
qed





end
